theory Spec2Isabelle
  imports Complex_Main "HOL-Library.AList" "HOL-Library.Sublist" "HOL-Library.Word"
begin

section \<open>Python values\<close>

text \<open>
  The worker receives JSON job payloads and passes JSON on to the AUTOMATIC1111 API, so
  the values of the model are the values \<^verbatim>\<open>json.loads\<close> produces. A Python
  \<^verbatim>\<open>int\<close> is unbounded; a \<^verbatim>\<open>float\<close> is kept as its 64 IEEE-754 bits (no
  arithmetic is done on it, only the truth test and \<^verbatim>\<open>str\<close>); a \<^verbatim>\<open>dict\<close> is an
  association list in insertion order, read with \<open>map_of\<close>.
\<close>

datatype pyval =
    PNone
  | PBool bool
  | PInt int
  | PFloat "64 word"
  | PStr string
  | PList "pyval list"
  | PDict "(string \<times> pyval) list"

type_synonym pydict = "(string \<times> pyval) list"

text \<open>The truth value of an object (\<^verbatim>\<open>if x:\<close>, \<^verbatim>\<open>x and y\<close>): \<^verbatim>\<open>0.0\<close> and
  \<^verbatim>\<open>-0.0\<close> are the two false floats.\<close>

fun truthy :: "pyval \<Rightarrow> bool" where
  "truthy PNone = False"
| "truthy (PBool b) = b"
| "truthy (PInt i) = (i \<noteq> 0)"
| "truthy (PFloat w) = (w \<noteq> 0 \<and> w \<noteq> 0x8000000000000000)"
| "truthy (PStr s) = (s \<noteq> [])"
| "truthy (PList xs) = (xs \<noteq> [])"
| "truthy (PDict d) = (d \<noteq> [])"

text \<open>\<^verbatim>\<open>isinstance(v, (int, float))\<close>: \<^verbatim>\<open>bool\<close> is a subclass of \<^verbatim>\<open>int\<close>.\<close>

fun is_int_or_float :: "pyval \<Rightarrow> bool" where
  "is_int_or_float (PBool b) = True"
| "is_int_or_float (PInt i) = True"
| "is_int_or_float (PFloat w) = True"
| "is_int_or_float v = False"

fun type_name_of :: "pyval \<Rightarrow> string" where
  "type_name_of PNone = ''NoneType''"
| "type_name_of (PBool b) = ''bool''"
| "type_name_of (PInt i) = ''int''"
| "type_name_of (PFloat w) = ''float''"
| "type_name_of (PStr s) = ''str''"
| "type_name_of (PList xs) = ''list''"
| "type_name_of (PDict d) = ''dict''"

subsection \<open>Formatting\<close>

definition digit_char :: "nat \<Rightarrow> char" where
  "digit_char d = ''0123456789'' ! d"

fun str_nat :: "nat \<Rightarrow> string" where
  "str_nat n = (if n < 10 then [digit_char n] else str_nat (n div 10) @ [digit_char (n mod 10)])"

declare str_nat.simps [simp del]

definition str_int :: "int \<Rightarrow> string" where
  "str_int i = (if i < 0 then CHR ''-'' # str_nat (nat (- i)) else str_nat (nat i))"

text \<open>
  \<^verbatim>\<open>str(v)\<close>, which is what an f-string field \<^verbatim>\<open>{v}\<close> inserts. The shortest
  round-trip rendering of a float and the \<^verbatim>\<open>repr\<close> of a list or dict belong to the
  interpreter, not to this repository: they are the parameter \<open>fmt\<close>.
\<close>

fun py_str :: "(pyval \<Rightarrow> string) \<Rightarrow> pyval \<Rightarrow> string" where
  "py_str fmt PNone = ''None''"
| "py_str fmt (PBool b) = (if b then ''True'' else ''False'')"
| "py_str fmt (PInt i) = str_int i"
| "py_str fmt (PStr s) = s"
| "py_str fmt v = fmt v"

section \<open>Exceptions, HTTP and the trace of effects\<close>

text \<open>
  The \<^verbatim>\<open>except\<close> clauses of the source name three classes, each a subclass of the
  next: \<^verbatim>\<open>requests.exceptions.HTTPError\<close>, \<^verbatim>\<open>requests.exceptions.RequestException\<close>
  and \<^verbatim>\<open>Exception\<close>. An exception carries the most specific of the three it is an
  instance of, the name of its class, its \<^verbatim>\<open>str\<close>, and the \<^verbatim>\<open>response\<close> attribute
  (\<^verbatim>\<open>None\<close> unless the library attached one). What is not an \<^verbatim>\<open>Exception\<close>
  (\<^verbatim>\<open>KeyboardInterrupt\<close>, \<^verbatim>\<open>SystemExit\<close>) is outside the model.
\<close>

datatype exc_class = HTTPError | RequestException | Exception

record http_response =
  status_code :: int
  reason :: string
  resp_url :: string
  resp_text :: string

record py_exception =
  exc_class :: exc_class
  type_name :: string
  exc_str :: string
  response :: "http_response option"

fun isinstance :: "py_exception \<Rightarrow> exc_class \<Rightarrow> bool" where
  "isinstance e Exception = True"
| "isinstance e RequestException = (exc_class e = HTTPError \<or> exc_class e = RequestException)"
| "isinstance e HTTPError = (exc_class e = HTTPError)"

definition builtin_error :: "string \<Rightarrow> string \<Rightarrow> py_exception" where
  "builtin_error cls msg =
     \<lparr>exc_class = Exception, type_name = cls, exc_str = msg, response = None\<rparr>"

definition attribute_error :: "pyval \<Rightarrow> string \<Rightarrow> py_exception" where
  "attribute_error v attr =
     builtin_error ''AttributeError''
       ([CHR 0x27] @ type_name_of v @ [CHR 0x27] @ '' object has no attribute '' @
        [CHR 0x27] @ attr @ [CHR 0x27])"

definition type_error :: "string \<Rightarrow> py_exception" where
  "type_error msg = builtin_error ''TypeError'' msg"

definition key_error :: "string \<Rightarrow> py_exception" where
  "key_error k = builtin_error ''KeyError'' ([CHR 0x27] @ k @ [CHR 0x27])"

text \<open>What \<^verbatim>\<open>Response.json()\<close> gives is part of the server's reply: the decoded
  body, or the exception the decoder raises.\<close>

record reply =
  resp :: http_response
  json_body :: "py_exception + pyval"

datatype http_method = GET | POST

record http_request =
  req_method :: http_method
  req_url :: string
  req_json :: "pyval option"
  req_timeout :: nat

text \<open>
  Everything the script does to the outside world, in order: the requests it sends through
  \<^verbatim>\<open>automatic_session\<close>, the lines it prints, the traceback it prints and the seconds it
  sleeps.
\<close>

datatype event =
    Request http_request
  | Print string
  | PrintTraceback py_exception
  | Sleep rat

fun is_Request :: "event \<Rightarrow> bool" where
  "is_Request (Request q) = True"
| "is_Request ev = False"

definition requests_sent :: "event list \<Rightarrow> nat" where
  "requests_sent tr = length (filter is_Request tr)"

text \<open>
  The local API is the environment: the answer to a request may depend on the request and
  on how many requests the process has sent before it. An answer is a reply, or the
  exception \<^verbatim>\<open>Session.request\<close> raises (after the adapter's own retries).
\<close>

type_synonym server = "nat \<Rightarrow> http_request \<Rightarrow> py_exception + reply"

definition session_send ::
  "server \<Rightarrow> http_request \<Rightarrow> event list \<Rightarrow> (py_exception + reply) \<times> event list" where
  "session_send srv q tr = (srv (requests_sent tr) q, tr @ [Request q])"

text \<open>\<^verbatim>\<open>Response.raise_for_status()\<close> of the requests library: an
  \<^verbatim>\<open>HTTPError\<close> that carries the response, for a 4xx or 5xx status.\<close>

definition raise_for_status :: "reply \<Rightarrow> py_exception + unit" where
  "raise_for_status r =
     (let c = status_code (resp r);
          http_error_msg =
            (if 400 \<le> c \<and> c < 500
             then str_int c @ '' Client Error: '' @ reason (resp r) @ '' for url: '' @ resp_url (resp r)
             else if 500 \<le> c \<and> c < 600
             then str_int c @ '' Server Error: '' @ reason (resp r) @ '' for url: '' @ resp_url (resp r)
             else '''')
      in if http_error_msg \<noteq> []
         then Inl \<lparr>exc_class = HTTPError, type_name = ''HTTPError'', exc_str = http_error_msg,
                   response = Some (resp r)\<rparr>
         else Inr ())"

section \<open>Module constants\<close>

definition LOCAL_URL :: string where
  "LOCAL_URL = ''http://127.0.0.1:3000/sdapi/v1''"

text \<open>\<^verbatim>\<open>Retry(total=15, backoff_factor=0.3, status_forcelist=[500, 502, 503, 504])\<close>,
  mounted on the session for both schemes.\<close>

record retry =
  total :: nat
  backoff_factor :: rat
  status_forcelist :: "int list"

definition retries_config :: retry where
  "retries_config = \<lparr>total = 15, backoff_factor = 3 / 10, status_forcelist = [500, 502, 503, 504]\<rparr>"

section \<open>The handler\<close>

subsection \<open>Dictionary operations\<close>

definition dict_get :: "pydict \<Rightarrow> string \<Rightarrow> pyval \<Rightarrow> pyval" where
  "dict_get d k dflt = (case map_of d k of None \<Rightarrow> dflt | Some v \<Rightarrow> v)"

definition dict_pop :: "pydict \<Rightarrow> string \<Rightarrow> pyval \<Rightarrow> pyval \<times> pydict" where
  "dict_pop d k dflt =
     (case map_of d k of None \<Rightarrow> (dflt, d) | Some v \<Rightarrow> (v, AList.delete k d))"

definition setdefault :: "pydict \<Rightarrow> string \<Rightarrow> pyval \<Rightarrow> pydict" where
  "setdefault d k v = (if map_of d k = None then d @ [(k, v)] else d)"

text \<open>The objects a \<^verbatim>\<open>for\<close> loop draws from a value: the items of a list, the
  characters of a string, the keys of a dict; anything else is not iterable.\<close>

fun py_iter :: "pyval \<Rightarrow> py_exception + pyval list" where
  "py_iter (PList xs) = Inr xs"
| "py_iter (PStr s) = Inr (map (\<lambda>c. PStr [c]) s)"
| "py_iter (PDict d) = Inr (map (\<lambda>kv. PStr (fst kv)) d)"
| "py_iter v =
     Inl (type_error ([CHR 0x27] @ type_name_of v @ [CHR 0x27] @ '' object is not iterable''))"

text \<open>\<^verbatim>\<open>current_prompt + lora_prompt_segment\<close>, the right operand a string.\<close>

fun py_add_str :: "pyval \<Rightarrow> string \<Rightarrow> py_exception + string" where
  "py_add_str (PStr s) t = Inr (s @ t)"
| "py_add_str (PList xs) t =
     Inl (type_error (''can only concatenate list (not '' @ [CHR 0x22] @ ''str'' @ [CHR 0x22] @
                      '') to list''))"
| "py_add_str v t =
     Inl (type_error (''unsupported operand type(s) for +: '' @ [CHR 0x27] @ type_name_of v @
                      [CHR 0x27] @ '' and '' @ [CHR 0x27] @ ''str'' @ [CHR 0x27]))"

subsection \<open>LoRA injection (lines 112 to 132)\<close>

text \<open>The body of \<^verbatim>\<open>for lora_entry in loras_to_apply\<close>, the accumulator
  \<^verbatim>\<open>lora_prompt_segment\<close> passed along. \<^verbatim>\<open>lora_entry.get\<close> exists on a dict
  only.\<close>

fun lora_loop ::
  "(pyval \<Rightarrow> string) \<Rightarrow> pyval list \<Rightarrow> string \<Rightarrow> event list \<Rightarrow>
     (py_exception + string) \<times> event list" where
  "lora_loop fmt [] lora_prompt_segment tr = (Inr lora_prompt_segment, tr)"
| "lora_loop fmt (lora_entry # rest) lora_prompt_segment tr =
     (case lora_entry of
        PDict d \<Rightarrow>
          (let lora_name = dict_get d ''name'' PNone;
               lora_weight = dict_get d ''weight'' PNone
           in if truthy lora_name \<and> is_int_or_float lora_weight
              then lora_loop fmt rest
                     (lora_prompt_segment @ '' <lora:'' @ py_str fmt lora_name @ '':'' @
                      py_str fmt lora_weight @ ''>'') tr
              else lora_loop fmt rest lora_prompt_segment
                     (tr @ [Print (''Warning: Invalid or incomplete LoRA entry skipped: '' @
                                   py_str fmt lora_entry)]))
      | _ \<Rightarrow> (Inl (attribute_error lora_entry ''get''), tr))"

definition lora_injection ::
  "(pyval \<Rightarrow> string) \<Rightarrow> pyval \<Rightarrow> event list \<Rightarrow> (py_exception + pydict) \<times> event list" where
  "lora_injection fmt job_input tr =
     (case job_input of
        PDict d \<Rightarrow>
          (let (loras_to_apply, d1) = dict_pop d ''loras'' (PList []);
               current_prompt = dict_get d1 ''prompt'' (PStr '''')
           in if truthy loras_to_apply
              then (case py_iter loras_to_apply of
                      Inl e \<Rightarrow> (Inl e, tr)
                    | Inr entries \<Rightarrow>
                        (case lora_loop fmt entries '''' tr of
                           (Inl e, tr1) \<Rightarrow> (Inl e, tr1)
                         | (Inr lora_prompt_segment, tr1) \<Rightarrow>
                             if lora_prompt_segment \<noteq> []
                             then (case py_add_str current_prompt lora_prompt_segment of
                                     Inl e \<Rightarrow> (Inl e, tr1)
                                   | Inr s \<Rightarrow>
                                       (Inr (AList.update ''prompt'' (PStr s) d1),
                                        tr1 @ [Print (''Prompt modified with LoRAs. New prompt: '' @
                                                      [CHR 0x22] @ s @ [CHR 0x22])]))
                             else (Inr d1, tr1)))
              else (Inr d1, tr))
      | PList xs \<Rightarrow> (Inl (type_error ''pop expected at most 1 argument, got 2''), tr)
      | _ \<Rightarrow> (Inl (attribute_error job_input ''pop''), tr))"

subsection \<open>Default values (lines 134 to 149)\<close>

text \<open>\<^verbatim>\<open>7.0\<close> is the double \<open>0x401C000000000000\<close>.\<close>

definition defaults :: pydict where
  "defaults =
     [(''steps'', PInt 20),
      (''sampler_name'', PStr ''Euler a''),
      (''cfg_scale'', PFloat 0x401C000000000000),
      (''width'', PInt 512),
      (''height'', PInt 512),
      (''seed'', PInt (- 1)),
      (''negative_prompt'', PStr '''')]"

definition apply_defaults :: "pydict \<Rightarrow> pydict" where
  "apply_defaults job_input = fold (\<lambda>kv acc. setdefault acc (fst kv) (snd kv)) defaults job_input"

text \<open>Lines 115 to 148 together: the payload the handler hands to
  \<^verbatim>\<open>run_sd_inference\<close>, or the exception that leaves the handler before the
  \<^verbatim>\<open>try\<close>.\<close>

definition handler_payload ::
  "(pyval \<Rightarrow> string) \<Rightarrow> pyval \<Rightarrow> event list \<Rightarrow> (py_exception + pydict) \<times> event list" where
  "handler_payload fmt job_input tr =
     (case lora_injection fmt job_input tr of
        (Inl e, tr1) \<Rightarrow> (Inl e, tr1)
      | (Inr d, tr1) \<Rightarrow> (Inr (apply_defaults d), tr1))"

subsection \<open>\<^verbatim>\<open>run_sd_inference\<close> (lines 84 to 101)\<close>

definition api_endpoint :: "pydict \<Rightarrow> string" where
  "api_endpoint inference_payload =
     (if (case map_of inference_payload ''init_images'' of
            None \<Rightarrow> False
          | Some v \<Rightarrow> truthy v)
      then ''img2img'' else ''txt2img'')"

definition inference_request :: "pydict \<Rightarrow> http_request" where
  "inference_request inference_payload =
     \<lparr>req_method = POST,
      req_url = LOCAL_URL @ ''/'' @ api_endpoint inference_payload,
      req_json = Some (PDict inference_payload),
      req_timeout = 600\<rparr>"

definition run_sd_inference ::
  "server \<Rightarrow> pydict \<Rightarrow> event list \<Rightarrow> (py_exception + pyval) \<times> event list" where
  "run_sd_inference srv inference_payload tr =
     (let full_api_url = LOCAL_URL @ ''/'' @ api_endpoint inference_payload;
          tr1 = tr @ [Print (''Sending request to AUTOMATIC1111 API: '' @ full_api_url)]
      in case session_send srv (inference_request inference_payload) tr1 of
           (Inl e, tr2) \<Rightarrow> (Inl e, tr2)
         | (Inr rsp, tr2) \<Rightarrow>
             (case raise_for_status rsp of
                Inl e \<Rightarrow> (Inl e, tr2)
              | Inr u \<Rightarrow> (json_body rsp, tr2)))"

subsection \<open>\<^verbatim>\<open>handler\<close> (lines 106 to 174)\<close>

definition error_result :: "string \<Rightarrow> int \<Rightarrow> pyval" where
  "error_result error_message status = PDict [(''error'', PStr error_message), (''status_code'', PInt status)]"

text \<open>The three \<^verbatim>\<open>except\<close> clauses, tried in the order of the source.\<close>

definition handle_inference_error :: "py_exception \<Rightarrow> event list \<Rightarrow> pyval \<times> event list" where
  "handle_inference_error err tr =
     (if isinstance err HTTPError then
        (let error_message = ''AUTOMATIC1111 API HTTP Error: '' @ exc_str err
         in case response err of
              None \<Rightarrow> (error_result error_message 500, tr @ [Print error_message])
            | Some r \<Rightarrow>
                (let error_message' = error_message @ '' - Status: '' @ str_int (status_code r) @
                                      '' - Response: '' @ resp_text r
                 in (error_result error_message' (status_code r), tr @ [Print error_message'])))
      else if isinstance err RequestException then
        (let error_message = ''AUTOMATIC1111 API Request Error: '' @ exc_str err
         in (error_result error_message 503, tr @ [Print error_message]))
      else
        (let error_message = ''An unexpected error occurred in the handler: '' @ exc_str err
         in (error_result error_message 500, tr @ [PrintTraceback err])))"

text \<open>
  The result of a call is \<open>Inr v\<close> when the handler returns \<open>v\<close> and \<open>Inl e\<close> when the
  exception \<open>e\<close> leaves it. The job object \<^verbatim>\<open>event\<close> is the dict the serverless
  runtime passes.
\<close>

definition handler ::
  "(pyval \<Rightarrow> string) \<Rightarrow> server \<Rightarrow> pydict \<Rightarrow> event list \<Rightarrow> (py_exception + pyval) \<times> event list" where
  "handler fmt srv event tr =
     (case map_of event ''input'' of
        None \<Rightarrow> (Inl (key_error ''input''), tr)
      | Some job_input \<Rightarrow>
          (case handler_payload fmt job_input tr of
             (Inl e, tr1) \<Rightarrow> (Inl e, tr1)
           | (Inr payload, tr1) \<Rightarrow>
               (case run_sd_inference srv payload tr1 of
                  (Inr api_response, tr2) \<Rightarrow> (Inr api_response, tr2)
                | (Inl err, tr2) \<Rightarrow>
                    (case handle_inference_error err tr2 of
                       (res, tr3) \<Rightarrow> (Inr res, tr3)))))"

section \<open>\<^verbatim>\<open>wait_for_service\<close> (lines 21 to 48)\<close>

definition log_interval :: nat where
  "log_interval = 15"

definition check_interval_seconds :: rat where
  "check_interval_seconds = 1 / 2"

definition health_request :: http_request where
  "health_request =
     \<lparr>req_method = GET, req_url = LOCAL_URL @ ''/progress?skip_current_image=true'',
      req_json = None, req_timeout = 10\<rparr>"

text \<open>The \<^verbatim>\<open>try\<close> block of one round: the request, then
  \<^verbatim>\<open>raise_for_status\<close>.\<close>

definition health_check :: "server \<Rightarrow> event list \<Rightarrow> (py_exception + unit) \<times> event list" where
  "health_check srv tr =
     (case session_send srv health_request tr of
        (Inl e, tr1) \<Rightarrow> (Inl e, tr1)
      | (Inr rsp, tr1) \<Rightarrow> (raise_for_status rsp, tr1))"

definition not_ready_message :: "string \<Rightarrow> nat \<Rightarrow> py_exception \<Rightarrow> string" where
  "not_ready_message service_name retries_count e =
     (if isinstance e RequestException
      then service_name @ '' not ready yet (attempt '' @ str_nat retries_count @
           ''). Retrying... Error: '' @ type_name e
      else service_name @ '' not ready yet (attempt '' @ str_nat retries_count @
           ''). Unexpected error: '' @ exc_str e @ ''. Retrying...'')"

text \<open>The \<^verbatim>\<open>while True\<close> loop. It has no bound, so it is a partial function: the
  value \<open>None\<close> is the run that never returns.\<close>

partial_function (option) wait_loop ::
  "server \<Rightarrow> string \<Rightarrow> nat \<Rightarrow> event list \<Rightarrow> event list option" where
  "wait_loop srv service_name retries_count tr =
     (case health_check srv tr of
        (Inr u, tr1) \<Rightarrow> Some (tr1 @ [Print (service_name @ '' is ready.'')])
      | (Inl e, tr1) \<Rightarrow>
          wait_loop srv service_name (retries_count + 1)
            ((if retries_count + 1 = 1 \<or> (retries_count + 1) mod log_interval = 0
              then tr1 @ [Print (not_ready_message service_name (retries_count + 1) e)]
              else tr1) @ [Sleep check_interval_seconds]))"

definition wait_for_service ::
  "server \<Rightarrow> string \<Rightarrow> string \<Rightarrow> event list \<Rightarrow> event list option" where
  "wait_for_service srv url service_name tr =
     wait_loop srv service_name 0
       (tr @ [Print (''Waiting for '' @ service_name @ '' at '' @ url @ '' to be ready...'')])"

subsection \<open>The rounds of the wait, as the specification words them\<close>

text \<open>
  \<open>health_outcome srv n\<close> is what the check makes of the server's answer to the
  \<open>n\<close>-th request of the process. A failed round is the request, a log line on the first
  attempt and on every fifteenth, and a sleep of half a second; the wait is the failed rounds
  in a row, then the request that succeeds and the line that says so.
\<close>

definition health_outcome :: "server \<Rightarrow> nat \<Rightarrow> py_exception + unit" where
  "health_outcome srv n =
     (case srv n health_request of Inl e \<Rightarrow> Inl e | Inr rsp \<Rightarrow> raise_for_status rsp)"

definition spec_failed_round :: "server \<Rightarrow> string \<Rightarrow> nat \<Rightarrow> nat \<Rightarrow> event list" where
  "spec_failed_round srv service_name n attempt =
     (case health_outcome srv n of
        Inr u \<Rightarrow> []
      | Inl e \<Rightarrow>
          [Request health_request] @
          (if attempt = 1 \<or> attempt mod 15 = 0
           then [Print (not_ready_message service_name attempt e)] else []) @
          [Sleep (1 / 2)])"

definition spec_wait_trace :: "server \<Rightarrow> string \<Rightarrow> nat \<Rightarrow> nat \<Rightarrow> nat \<Rightarrow> event list" where
  "spec_wait_trace srv service_name n0 r n =
     concat (map (\<lambda>k. spec_failed_round srv service_name (n0 + k) (r + k + 1)) [0..<n]) @
     [Request health_request, Print (service_name @ '' is ready.'')]"

section \<open>\<^verbatim>\<open>set_sd_model_checkpoint\<close> (lines 50 to 82)\<close>

text \<open>\<^verbatim>\<open>model_title_or_filename in new_checkpoint\<close>, the left operand a string:
  a substring of a string, an item of a list, a key of a dict.\<close>

fun py_contains_str :: "string \<Rightarrow> pyval \<Rightarrow> py_exception + bool" where
  "py_contains_str s (PStr t) = Inr (sublist s t)"
| "py_contains_str s (PList xs) = Inr (List.member xs (PStr s))"
| "py_contains_str s (PDict d) = Inr (map_of d s \<noteq> None)"
| "py_contains_str s v =
     Inl (type_error (''argument of type '' @ [CHR 0x27] @ type_name_of v @ [CHR 0x27] @
                      '' is not iterable''))"

definition options_post :: "string \<Rightarrow> http_request" where
  "options_post model_title_or_filename =
     \<lparr>req_method = POST, req_url = LOCAL_URL @ ''/options'',
      req_json = Some (PDict [(''sd_model_checkpoint'', PStr model_title_or_filename)]),
      req_timeout = 60\<rparr>"

definition options_get :: http_request where
  "options_get =
     \<lparr>req_method = GET, req_url = LOCAL_URL @ ''/options'', req_json = None, req_timeout = 30\<rparr>"

definition checkpoint_warning :: "(pyval \<Rightarrow> string) \<Rightarrow> string \<Rightarrow> pyval \<Rightarrow> event list" where
  "checkpoint_warning fmt model_title_or_filename new_checkpoint =
     [Print ''Warning: SD model checkpoint may not have been set as expected, or verification failed.'',
      Print (''  Requested: '' @ model_title_or_filename),
      Print (''  API reports: '' @ py_str fmt new_checkpoint),
      Print (''  Ensure '' @ [CHR 0x27] @ model_title_or_filename @ [CHR 0x27] @
             '' is the correct name recognized by A1111 and is present in '' @
             [CHR 0x27] @ ''models/Stable-diffusion'' @ [CHR 0x27] @ ''.'')]"

definition checkpoint_success :: "(pyval \<Rightarrow> string) \<Rightarrow> pyval \<Rightarrow> event" where
  "checkpoint_success fmt new_checkpoint =
     Print (''Successfully set SD model checkpoint. Current API reports: '' @ py_str fmt new_checkpoint)"

text \<open>The verification of lines 66 to 74, on the decoded read-back.\<close>

definition verify_checkpoint ::
  "(pyval \<Rightarrow> string) \<Rightarrow> string \<Rightarrow> pyval \<Rightarrow> event list \<Rightarrow> (py_exception + unit) \<times> event list" where
  "verify_checkpoint fmt model_title_or_filename current_options tr =
     (case current_options of
        PDict d \<Rightarrow>
          (let new_checkpoint = dict_get d ''sd_model_checkpoint'' PNone
           in if truthy new_checkpoint
              then (case py_contains_str model_title_or_filename new_checkpoint of
                      Inl e \<Rightarrow> (Inl e, tr)
                    | Inr found \<Rightarrow>
                        if found
                        then (Inr (), tr @ [checkpoint_success fmt new_checkpoint])
                        else (Inr (), tr @ checkpoint_warning fmt model_title_or_filename new_checkpoint))
              else (Inr (), tr @ checkpoint_warning fmt model_title_or_filename new_checkpoint))
      | _ \<Rightarrow> (Inl (attribute_error current_options ''get''), tr))"

text \<open>The \<^verbatim>\<open>try\<close> block, lines 60 to 74.\<close>

definition set_checkpoint_body ::
  "(pyval \<Rightarrow> string) \<Rightarrow> server \<Rightarrow> string \<Rightarrow> event list \<Rightarrow> (py_exception + unit) \<times> event list" where
  "set_checkpoint_body fmt srv model_title_or_filename tr =
     (case session_send srv (options_post model_title_or_filename) tr of
        (Inl e, tr1) \<Rightarrow> (Inl e, tr1)
      | (Inr rsp, tr1) \<Rightarrow>
          (case raise_for_status rsp of
             Inl e \<Rightarrow> (Inl e, tr1)
           | Inr u \<Rightarrow>
               (case session_send srv options_get (tr1 @ [Sleep 1]) of
                  (Inl e, tr2) \<Rightarrow> (Inl e, tr2)
                | (Inr rsp2, tr2) \<Rightarrow>
                    (case json_body rsp2 of
                       Inl e \<Rightarrow> (Inl e, tr2)
                     | Inr current_options \<Rightarrow>
                         verify_checkpoint fmt model_title_or_filename current_options tr2))))"

text \<open>The three \<^verbatim>\<open>except\<close> clauses. The first reads
  \<^verbatim>\<open>http_err.response.status_code\<close> while it builds its line, which on
  \<^verbatim>\<open>None\<close> raises inside the clause: that exception leaves the function.\<close>

definition set_sd_model_checkpoint ::
  "(pyval \<Rightarrow> string) \<Rightarrow> server \<Rightarrow> string \<Rightarrow> event list \<Rightarrow> (py_exception + unit) \<times> event list" where
  "set_sd_model_checkpoint fmt srv model_title_or_filename tr =
     (case set_checkpoint_body fmt srv model_title_or_filename
             (tr @ [Print (''Attempting to set SD model checkpoint to: '' @ model_title_or_filename)]) of
        (Inr u, tr1) \<Rightarrow> (Inr (), tr1)
      | (Inl e, tr1) \<Rightarrow>
          if isinstance e HTTPError then
            (case response e of
               None \<Rightarrow> (Inl (attribute_error PNone ''status_code''), tr1)
             | Some r \<Rightarrow>
                 (Inr (), tr1 @
                    [Print (''HTTP Error setting SD model checkpoint to '' @ [CHR 0x27] @
                            model_title_or_filename @ [CHR 0x27] @ '': '' @ str_int (status_code r)),
                     Print (''Response body: '' @ resp_text r)]))
          else if isinstance e RequestException then
            (Inr (), tr1 @
               [Print (''Request Error setting SD model checkpoint to '' @ [CHR 0x27] @
                       model_title_or_filename @ [CHR 0x27] @ '': '' @ exc_str e)])
          else
            (Inr (), tr1 @
               [Print (''An unexpected error occurred while setting model checkpoint '' @ [CHR 0x27] @
                       model_title_or_filename @ [CHR 0x27] @ '': '' @ exc_str e)]))"

section \<open>The payload transformation, as the specification words it\<close>

text \<open>
  These four definitions follow the sentence of the specification, not the loop of the source:
  a descriptor counts when it has a name and a numeric weight (in Python \<^verbatim>\<open>bool\<close> is
  an \<^verbatim>\<open>int\<close>), its tag is \<^verbatim>\<open> <lora:name:weight>\<close>, the tags of the descriptors that
  count are appended to the prompt once \<^verbatim>\<open>loras\<close> is removed, and the defaults are added
  for the keys that are missing.
\<close>

definition spec_lora_valid :: "pydict \<Rightarrow> bool" where
  "spec_lora_valid d =
     (truthy (dict_get d ''name'' PNone) \<and> is_int_or_float (dict_get d ''weight'' PNone))"

definition spec_lora_tag :: "(pyval \<Rightarrow> string) \<Rightarrow> pydict \<Rightarrow> string" where
  "spec_lora_tag fmt d =
     '' <lora:'' @ py_str fmt (dict_get d ''name'' PNone) @ '':'' @
     py_str fmt (dict_get d ''weight'' PNone) @ ''>''"

definition spec_inject_loras :: "(pyval \<Rightarrow> string) \<Rightarrow> pydict list \<Rightarrow> string \<Rightarrow> pydict \<Rightarrow> pydict" where
  "spec_inject_loras fmt ds prompt j =
     (let tags = concat (map (spec_lora_tag fmt) (filter spec_lora_valid ds));
          j' = AList.delete ''loras'' j
      in if tags = [] then j' else AList.update ''prompt'' (PStr (prompt @ tags)) j')"

definition spec_fill_defaults :: "pydict \<Rightarrow> pydict" where
  "spec_fill_defaults p = p @ filter (\<lambda>kv. map_of p (fst kv) = None) defaults"

section \<open>Example inputs\<close>

text \<open>A job with two LoRA descriptors (the second has an empty name), and servers that
  refuse the connection, answer 503, answer 200, fail twice before they answer, raise an
  \<^verbatim>\<open>HTTPError\<close> that carries no response, and report a checkpoint.
  \<open>demo_fmt\<close> renders the double \<open>0x3FE6666666666666\<close> as \<^verbatim>\<open>0.7\<close>.\<close>

definition demo_fmt :: "pyval \<Rightarrow> string" where
  "demo_fmt v = (if v = PFloat 0x3FE6666666666666 then ''0.7'' else ''?'')"

definition demo_job :: pydict where
  "demo_job =
     [(''prompt'', PStr ''a cat''),
      (''loras'', PList [PDict [(''name'', PStr ''foo''), (''weight'', PFloat 0x3FE6666666666666)],
                         PDict [(''name'', PStr []), (''weight'', PInt 1)]]),
      (''steps'', PInt 30)]"

definition demo_event :: pydict where
  "demo_event = [(''id'', PStr ''job-1''), (''input'', PDict demo_job)]"

definition demo_payload :: pydict where
  "demo_payload =
     [(''prompt'', PStr ''a cat <lora:foo:0.7>''),
      (''steps'', PInt 30),
      (''sampler_name'', PStr ''Euler a''),
      (''cfg_scale'', PFloat 0x401C000000000000),
      (''width'', PInt 512),
      (''height'', PInt 512),
      (''seed'', PInt (- 1)),
      (''negative_prompt'', PStr [])]"

definition demo_prints :: "event list" where
  "demo_prints =
     [Print ''Warning: Invalid or incomplete LoRA entry skipped: ?'',
      Print (''Prompt modified with LoRAs. New prompt: '' @ [CHR 0x22] @ ''a cat <lora:foo:0.7>'' @ [CHR 0x22])]"

definition server_down :: server where
  "server_down n q =
     Inl \<lparr>exc_class = RequestException, type_name = ''ConnectionError'',
          exc_str = ''Connection refused'', response = None\<rparr>"

definition server_busy :: server where
  "server_busy n q =
     Inr \<lparr>resp = \<lparr>status_code = 503, reason = ''Service Unavailable'', resp_url = req_url q,
                  resp_text = ''busy''\<rparr>,
          json_body = Inl (builtin_error ''JSONDecodeError'' ''Expecting value'')\<rparr>"

definition server_ok :: server where
  "server_ok n q =
     Inr \<lparr>resp = \<lparr>status_code = 200, reason = ''OK'', resp_url = req_url q, resp_text = ''{}''\<rparr>,
          json_body = Inr (PDict [(''images'', PList [])])\<rparr>"

definition server_warming :: server where
  "server_warming n q = (if n < 2 then server_down n q else server_ok n q)"

definition server_bare_http_error :: server where
  "server_bare_http_error n q =
     Inl \<lparr>exc_class = HTTPError, type_name = ''HTTPError'', exc_str = ''502 Server Error'',
          response = None\<rparr>"

definition server_same_model :: server where
  "server_same_model n q =
     Inr \<lparr>resp = \<lparr>status_code = 200, reason = ''OK'', resp_url = req_url q, resp_text = ''{}''\<rparr>,
          json_body = Inr (PDict [(''sd_model_checkpoint'', PStr ''model.safetensors [abc]'')])\<rparr>"

section \<open>Properties\<close>

subsection \<open>The trace\<close>

lemma requests_sent_simps [simp]:
  "requests_sent [] = 0"
  "requests_sent (tr @ tr') = requests_sent tr + requests_sent tr'"
  "requests_sent (Request q # tr) = Suc (requests_sent tr)"
  "requests_sent (Print s # tr) = requests_sent tr"
  "requests_sent (PrintTraceback e # tr) = requests_sent tr"
  "requests_sent (Sleep t # tr) = requests_sent tr"
  by (simp_all add: requests_sent_def)

lemma run_sd_inference_trace:
  "snd (run_sd_inference srv p tr) =
     tr @ [Print (''Sending request to AUTOMATIC1111 API: '' @ LOCAL_URL @ ''/'' @ api_endpoint p),
           Request (inference_request p)]"
  by (simp add: run_sd_inference_def session_send_def Let_def split: sum.splits prod.splits)

subsection \<open>The endpoint\<close>

lemma api_endpoint_cases:
  "api_endpoint p =
     (if (\<exists>v. map_of p ''init_images'' = Some v \<and> truthy v) then ''img2img'' else ''txt2img'')"
  by (simp add: api_endpoint_def split: option.splits)

text \<open>
  C2, as the code has it. \<^verbatim>\<open>run_sd_inference\<close> sends exactly one request, a POST of
  the payload, and its URL ends in \<^verbatim>\<open>img2img\<close> when the payload has the key
  \<^verbatim>\<open>init_images\<close> with a true value (a non-empty list, for instance) and in
  \<^verbatim>\<open>txt2img\<close> otherwise: the key alone does not decide, line 91 also tests the value.
\<close>

theorem C2_endpoint_choice:
  "req_url (inference_request p) =
     LOCAL_URL @ ''/'' @ (if (\<exists>v. map_of p ''init_images'' = Some v \<and> truthy v)
                          then ''img2img'' else ''txt2img'')
   \<and> req_method (inference_request p) = POST
   \<and> req_json (inference_request p) = Some (PDict p)
   \<and> filter is_Request (snd (run_sd_inference srv p tr)) =
       filter is_Request tr @ [Request (inference_request p)]"
  by (simp add: run_sd_inference_trace api_endpoint_cases inference_request_def)

theorem C2_endpoint_choice_witness:
  "req_url (inference_request [(''prompt'', PStr ''a''), (''init_images'', PList [PStr ''aGk=''])]) =
     ''http://127.0.0.1:3000/sdapi/v1/img2img''
   \<and> req_url (inference_request [(''prompt'', PStr ''a'')]) = ''http://127.0.0.1:3000/sdapi/v1/txt2img''"
  using C2_endpoint_choice [of "[(''prompt'', PStr ''a''), (''init_images'', PList [PStr ''aGk=''])]"
                               "\<lambda>n q. Inl (type_error [])" "[]"]
        C2_endpoint_choice [of "[(''prompt'', PStr ''a'')]" "\<lambda>n q. Inl (type_error [])" "[]"]
  by (simp add: LOCAL_URL_def)

text \<open>C2 with presence alone as the test fails: a payload that has the key \<^verbatim>\<open>init_images\<close>
  with an empty list goes to \<^verbatim>\<open>txt2img\<close>.\<close>

theorem C2_present_but_empty_counterexample:
  "map_of [(''init_images'', PList [])] ''init_images'' \<noteq> None \<and>
   req_url (inference_request [(''init_images'', PList [])]) = LOCAL_URL @ ''/txt2img'' \<and>
   req_url (inference_request [(''init_images'', PList [])]) \<noteq> LOCAL_URL @ ''/img2img''"
  by (simp add: inference_request_def api_endpoint_def)

subsection \<open>The handler\<close>

lemma lora_loop_append:
  "lora_loop fmt es seg tr =
     (fst (lora_loop fmt es seg []), tr @ snd (lora_loop fmt es seg []))"
proof (induction es arbitrary: seg tr)
  case Nil
  show ?case by simp
next
  case (Cons e es)
  show ?case
  proof (cases e)
    case (PDict d)
    show ?thesis
      using Cons.IH [of seg "tr @ [Print (''Warning: Invalid or incomplete LoRA entry skipped: '' @ py_str fmt e)]"]
            Cons.IH [of seg "[Print (''Warning: Invalid or incomplete LoRA entry skipped: '' @ py_str fmt e)]"]
            Cons.IH [of "seg @ '' <lora:'' @ py_str fmt (dict_get d ''name'' PNone) @ '':'' @ py_str fmt (dict_get d ''weight'' PNone) @ ''>''" tr]
      by (simp add: PDict Let_def)
  qed simp_all
qed

lemma lora_loop_no_request:
  "requests_sent (snd (lora_loop fmt es seg tr)) = requests_sent tr"
  by (induction es arbitrary: seg tr) (simp_all add: Let_def split: pyval.splits)

lemma lora_injection_append:
  "lora_injection fmt j tr =
     (fst (lora_injection fmt j []), tr @ snd (lora_injection fmt j []))"
proof -
  have *: "\<And>es. lora_loop fmt es [] tr = (fst (lora_loop fmt es [] []), tr @ snd (lora_loop fmt es [] []))"
    by (rule lora_loop_append)
  show ?thesis
    unfolding lora_injection_def
    by (simp add: Let_def * split: pyval.splits sum.splits prod.splits option.splits)
qed

lemma lora_injection_no_request:
  "requests_sent (snd (lora_injection fmt j tr)) = requests_sent tr"
  unfolding lora_injection_def
  by (auto simp: Let_def dict_pop_def lora_loop_no_request
           split: pyval.splits sum.splits prod.splits option.splits
           dest!: arg_cong [where f = "\<lambda>x. requests_sent (snd x)"])

lemma handler_payload_append:
  "handler_payload fmt j tr =
     (fst (handler_payload fmt j []), tr @ snd (handler_payload fmt j []))"
  unfolding handler_payload_def
  by (subst lora_injection_append) (simp split: sum.splits prod.splits)

lemma handler_payload_no_request:
  "requests_sent (snd (handler_payload fmt j tr)) = requests_sent tr"
proof (cases "lora_injection fmt j tr")
  case (Pair r tr1)
  then show ?thesis
    using lora_injection_no_request [of fmt j tr]
    by (cases r) (simp_all add: handler_payload_def)
qed

lemma run_sd_inference_result:
  "fst (run_sd_inference srv p tr) =
     (case srv (requests_sent tr) (inference_request p) of
        Inl e \<Rightarrow> Inl e
      | Inr rsp \<Rightarrow> (case raise_for_status rsp of Inl e \<Rightarrow> Inl e | Inr u \<Rightarrow> json_body rsp))"
  by (simp add: run_sd_inference_def session_send_def Let_def split: sum.splits prod.splits)

lemma handle_inference_error_result:
  "\<exists>msg. fst (handle_inference_error err tr) =
      error_result msg
        (case exc_class err of
           HTTPError \<Rightarrow> (case response err of Some r \<Rightarrow> status_code r | None \<Rightarrow> 500)
         | RequestException \<Rightarrow> 503
         | Exception \<Rightarrow> 500)"
  unfolding handle_inference_error_def Let_def
  by (cases "exc_class err"; cases "response err"; simp; blast)

lemma handle_inference_error_trace:
  "\<exists>ev. snd (handle_inference_error err tr) = tr @ [ev] \<and> \<not> is_Request ev"
  by (simp add: handle_inference_error_def Let_def split: option.splits)

lemma handler_after_payload:
  assumes "map_of event ''input'' = Some job_input"
      and "handler_payload fmt job_input tr = (Inr payload, tr1)"
  shows "handler fmt srv event tr =
           (case run_sd_inference srv payload tr1 of
              (Inr api_response, tr2) \<Rightarrow> (Inr api_response, tr2)
            | (Inl err, tr2) \<Rightarrow>
                (Inr (fst (handle_inference_error err tr2)), snd (handle_inference_error err tr2)))"
  using assms by (simp add: handler_def split: sum.splits prod.splits)

lemma handle_inference_error_dict:
  "\<exists>msg. fst (handle_inference_error err tr) =
      PDict [(''error'', PStr msg),
             (''status_code'',
              PInt (case exc_class err of
                      HTTPError \<Rightarrow> (case response err of Some r \<Rightarrow> status_code r | None \<Rightarrow> 500)
                    | RequestException \<Rightarrow> 503
                    | Exception \<Rightarrow> 500))]"
  using handle_inference_error_result [of err tr] by (simp add: error_result_def)

text \<open>
  C10. When the inference call fails, the handler returns a dict whose \<^verbatim>\<open>status_code\<close>
  is fixed by the kind of the failure: the status of the upstream response for an
  \<^verbatim>\<open>HTTPError\<close> that carries one, 500 for an \<^verbatim>\<open>HTTPError\<close> without a response and
  for any exception outside the requests hierarchy, 503 for every other
  \<^verbatim>\<open>RequestException\<close>. The dict also has the message under \<^verbatim>\<open>error\<close>.
\<close>

theorem C10_status_code:
  assumes "map_of event ''input'' = Some job_input"
      and "handler_payload fmt job_input tr = (Inr payload, tr1)"
      and "run_sd_inference srv payload tr1 = (Inl err, tr2)"
  shows "\<exists>d msg. fst (handler fmt srv event tr) = Inr (PDict d) \<and>
            map_of d ''status_code'' =
              Some (PInt (case exc_class err of
                            HTTPError \<Rightarrow> (case response err of Some r \<Rightarrow> status_code r | None \<Rightarrow> 500)
                          | RequestException \<Rightarrow> 503
                          | Exception \<Rightarrow> 500)) \<and>
            map_of d ''error'' = Some (PStr msg)"
proof -
  obtain msg where "fst (handle_inference_error err tr2) =
      PDict [(''error'', PStr msg),
             (''status_code'',
              PInt (case exc_class err of
                      HTTPError \<Rightarrow> (case response err of Some r \<Rightarrow> status_code r | None \<Rightarrow> 500)
                    | RequestException \<Rightarrow> 503
                    | Exception \<Rightarrow> 500))]"
    using handle_inference_error_dict [of err tr2] by blast
  then have "fst (handler fmt srv event tr) =
      Inr (PDict [(''error'', PStr msg),
             (''status_code'',
              PInt (case exc_class err of
                      HTTPError \<Rightarrow> (case response err of Some r \<Rightarrow> status_code r | None \<Rightarrow> 500)
                    | RequestException \<Rightarrow> 503
                    | Exception \<Rightarrow> 500))])"
    by (simp add: handler_after_payload [OF assms(1,2)] assms(3))
  then show ?thesis by simp
qed

lemma map_of_fold_setdefault:
  "map_of (fold (\<lambda>kv acc. setdefault acc (fst kv) (snd kv)) ds p) k =
     (case map_of p k of Some v \<Rightarrow> Some v | None \<Rightarrow> map_of ds k)"
  by (induction ds arbitrary: p) (auto simp: setdefault_def split: option.splits)

lemma map_of_apply_defaults:
  "map_of (apply_defaults d) k = (case map_of d k of Some v \<Rightarrow> Some v | None \<Rightarrow> map_of defaults k)"
  by (simp add: apply_defaults_def map_of_fold_setdefault)

lemma lora_injection_lookup:
  assumes "lora_injection fmt (PDict j) tr = (Inr d, tr1)"
  shows "map_of d ''loras'' = None"
    and "k \<noteq> ''loras'' \<Longrightarrow> k \<noteq> ''prompt'' \<Longrightarrow> map_of d k = map_of j k"
  using assms
  by (auto simp: lora_injection_def dict_pop_def Let_def AList.update_conv' AList.delete_conv'
           split: option.splits if_splits sum.splits prod.splits)

lemma lora_injection_dict:
  "lora_injection fmt job_input tr = (Inr d, tr1) \<Longrightarrow> \<exists>j. job_input = PDict j"
  by (cases job_input) (simp_all add: lora_injection_def)

lemma demo_input: "map_of demo_event ''input'' = Some (PDict demo_job)"
  by (simp add: demo_event_def)

lemma demo_injection:
  "lora_injection demo_fmt (PDict demo_job) [] =
     (Inr [(''prompt'', PStr ''a cat <lora:foo:0.7>''), (''steps'', PInt 30)], demo_prints)"
  by (simp add: lora_injection_def demo_job_def dict_pop_def dict_get_def AList.delete_eq Let_def
        demo_fmt_def demo_prints_def)

lemma demo_handler_payload:
  "handler_payload demo_fmt (PDict demo_job) [] = (Inr demo_payload, demo_prints)"
  by (simp add: handler_payload_def demo_injection apply_defaults_def defaults_def setdefault_def
        demo_payload_def)

lemma demo_run_down:
  "run_sd_inference server_down demo_payload demo_prints =
     (Inl \<lparr>exc_class = RequestException, type_name = ''ConnectionError'',
           exc_str = ''Connection refused'', response = None\<rparr>,
      demo_prints @ [Print (''Sending request to AUTOMATIC1111 API: '' @ LOCAL_URL @ ''/txt2img''),
                     Request (inference_request demo_payload)])"
  by (simp add: run_sd_inference_def session_send_def server_down_def Let_def api_endpoint_def
        demo_payload_def)

lemma demo_run_ok:
  "run_sd_inference server_ok demo_payload demo_prints =
     (Inr (PDict [(''images'', PList [])]),
      demo_prints @ [Print (''Sending request to AUTOMATIC1111 API: '' @ LOCAL_URL @ ''/txt2img''),
                     Request (inference_request demo_payload)])"
  by (simp add: run_sd_inference_def session_send_def server_ok_def Let_def api_endpoint_def
        demo_payload_def raise_for_status_def)

lemma demo_run_busy:
  "\<exists>m. run_sd_inference server_busy demo_payload demo_prints =
     (Inl \<lparr>exc_class = HTTPError, type_name = ''HTTPError'', exc_str = m,
           response = Some \<lparr>status_code = 503, reason = ''Service Unavailable'',
                            resp_url = req_url (inference_request demo_payload), resp_text = ''busy''\<rparr>\<rparr>,
      demo_prints @ [Print (''Sending request to AUTOMATIC1111 API: '' @ LOCAL_URL @ ''/txt2img''),
                     Request (inference_request demo_payload)])"
  by (simp add: run_sd_inference_def session_send_def server_busy_def Let_def api_endpoint_def
        demo_payload_def raise_for_status_def)

lemma demo_run_bare:
  "run_sd_inference server_bare_http_error demo_payload demo_prints =
     (Inl \<lparr>exc_class = HTTPError, type_name = ''HTTPError'', exc_str = ''502 Server Error'',
           response = None\<rparr>,
      demo_prints @ [Print (''Sending request to AUTOMATIC1111 API: '' @ LOCAL_URL @ ''/txt2img''),
                     Request (inference_request demo_payload)])"
  by (simp add: run_sd_inference_def session_send_def server_bare_http_error_def Let_def
        api_endpoint_def demo_payload_def)

text \<open>C10 at a refused connection (503), at a reply with status 503 (the upstream status) and
  at an \<^verbatim>\<open>HTTPError\<close> without a response (500).\<close>

theorem C10_status_code_witness:
  "(\<exists>d msg. fst (handler demo_fmt server_down demo_event []) = Inr (PDict d) \<and>
       map_of d ''status_code'' = Some (PInt 503) \<and> map_of d ''error'' = Some (PStr msg)) \<and>
   (\<exists>d msg. fst (handler demo_fmt server_busy demo_event []) = Inr (PDict d) \<and>
       map_of d ''status_code'' = Some (PInt 503) \<and> map_of d ''error'' = Some (PStr msg)) \<and>
   (\<exists>d msg. fst (handler demo_fmt server_bare_http_error demo_event []) = Inr (PDict d) \<and>
       map_of d ''status_code'' = Some (PInt 500) \<and> map_of d ''error'' = Some (PStr msg))"
proof -
  obtain m where busy:
    "run_sd_inference server_busy demo_payload demo_prints =
     (Inl \<lparr>exc_class = HTTPError, type_name = ''HTTPError'', exc_str = m,
           response = Some \<lparr>status_code = 503, reason = ''Service Unavailable'',
                            resp_url = req_url (inference_request demo_payload), resp_text = ''busy''\<rparr>\<rparr>,
      demo_prints @ [Print (''Sending request to AUTOMATIC1111 API: '' @ LOCAL_URL @ ''/txt2img''),
                     Request (inference_request demo_payload)])"
    using demo_run_busy by blast
  show ?thesis
    using C10_status_code [OF demo_input demo_handler_payload demo_run_down]
          C10_status_code [OF demo_input demo_handler_payload busy]
          C10_status_code [OF demo_input demo_handler_payload demo_run_bare]
    by simp
qed

lemma handle_inference_error_fst:
  "fst (handle_inference_error err tr) = fst (handle_inference_error err [])"
  by (simp add: handle_inference_error_def Let_def split: option.splits)

lemma handle_inference_error_request:
  assumes "isinstance err RequestException"
  shows "\<exists>msg code. handle_inference_error err tr = (error_result msg code, tr @ [Print msg])"
  using assms unfolding handle_inference_error_def Let_def
  by (cases "exc_class err"; cases "response err"; simp; blast)

lemma handler_fst:
  "fst (handler fmt srv event tr) =
     (case map_of event ''input'' of
        None \<Rightarrow> Inl (key_error ''input'')
      | Some job \<Rightarrow>
          (case fst (handler_payload fmt job []) of
             Inl e \<Rightarrow> Inl e
           | Inr p \<Rightarrow>
               (case (case srv (requests_sent tr) (inference_request p) of
                        Inl e \<Rightarrow> Inl e
                      | Inr rsp \<Rightarrow> (case raise_for_status rsp of Inl e \<Rightarrow> Inl e | Inr u \<Rightarrow> json_body rsp)) of
                  Inl err \<Rightarrow> Inr (fst (handle_inference_error err []))
                | Inr v \<Rightarrow> Inr v)))"
proof (cases "map_of event ''input''")
  case None
  then show ?thesis by (simp add: handler_def)
next
  case (Some job)
  obtain r ps where hp: "handler_payload fmt job [] = (r, ps)"
    by (cases "handler_payload fmt job []")
  have hp_tr: "handler_payload fmt job tr = (r, tr @ ps)"
    using handler_payload_append [of fmt job tr] hp by simp
  have sent: "requests_sent (tr @ ps) = requests_sent tr"
    using handler_payload_no_request [of fmt job tr] hp_tr by simp
  show ?thesis
  proof (cases r)
    case (Inl e)
    then show ?thesis using Some hp hp_tr by (simp add: handler_def)
  next
    case (Inr p)
    obtain a tr2 where run: "run_sd_inference srv p (tr @ ps) = (a, tr2)"
      by (cases "run_sd_inference srv p (tr @ ps)")
    have a: "a = (case srv (requests_sent tr) (inference_request p) of
                    Inl e \<Rightarrow> Inl e
                  | Inr rsp \<Rightarrow> (case raise_for_status rsp of Inl e \<Rightarrow> Inl e | Inr u \<Rightarrow> json_body rsp))"
      using run_sd_inference_result [of srv p "tr @ ps"] run sent by simp
    have "fst (handler fmt srv event tr) =
            (case a of Inl err \<Rightarrow> Inr (fst (handle_inference_error err [])) | Inr v \<Rightarrow> Inr v)"
      using handler_after_payload [OF Some, of fmt tr p "tr @ ps" srv] hp_tr Inr run
            handle_inference_error_fst
      by (simp split: sum.splits)
    then show ?thesis using Some hp Inr a by simp
  qed
qed

lemma handler_trace:
  "\<exists>evs. snd (handler fmt srv event tr) = tr @ evs \<and>
     (filter is_Request evs = [] \<or>
      (\<exists>job p. map_of event ''input'' = Some job \<and> fst (handler_payload fmt job []) = Inr p \<and>
               filter is_Request evs = [Request (inference_request p)]))"
proof (cases "map_of event ''input''")
  case None
  then show ?thesis by (simp add: handler_def)
next
  case (Some job)
  obtain r ps where hp: "handler_payload fmt job [] = (r, ps)"
    by (cases "handler_payload fmt job []")
  have hp_tr: "handler_payload fmt job tr = (r, tr @ ps)"
    using handler_payload_append [of fmt job tr] hp by simp
  have nps: "filter is_Request ps = []"
    using handler_payload_no_request [of fmt job "[]"] hp by (simp add: requests_sent_def)
  show ?thesis
  proof (cases r)
    case (Inl e)
    then show ?thesis using Some hp_tr nps by (simp add: handler_def)
  next
    case (Inr p)
    obtain a tr2 where run: "run_sd_inference srv p (tr @ ps) = (a, tr2)"
      by (cases "run_sd_inference srv p (tr @ ps)")
    have tr2: "tr2 = tr @ ps @
                 [Print (''Sending request to AUTOMATIC1111 API: '' @ LOCAL_URL @ ''/'' @ api_endpoint p),
                  Request (inference_request p)]"
      using run_sd_inference_trace [of srv p "tr @ ps"] run by simp
    have h: "handler fmt srv event tr =
               (case a of Inr v \<Rightarrow> (Inr v, tr2)
                | Inl err \<Rightarrow> (Inr (fst (handle_inference_error err tr2)),
                               snd (handle_inference_error err tr2)))"
      using handler_after_payload [OF Some, of fmt tr p "tr @ ps" srv] hp_tr Inr run by simp
    show ?thesis
    proof (cases a)
      case (Inr v)
      then show ?thesis using h tr2 nps Some hp \<open>r = Inr p\<close> by simp
    next
      case (Inl err)
      obtain ev where ev: "snd (handle_inference_error err tr2) = tr2 @ [ev]" "\<not> is_Request ev"
        using handle_inference_error_trace [of err tr2] by blast
      then show ?thesis using h tr2 nps Some hp \<open>r = Inr p\<close> Inl by simp
    qed
  qed
qed

lemma handle_inference_error_request_dict:
  assumes "isinstance err RequestException"
  shows "\<exists>msg code. handle_inference_error err tr =
           (PDict [(''error'', PStr msg), (''status_code'', PInt code)], tr @ [Print msg])"
  using handle_inference_error_request [OF assms, of tr] by (simp add: error_result_def)

text \<open>
  C3. Once the payload is built, a failure of the inference call with an
  \<^verbatim>\<open>HTTPError\<close> or any other \<^verbatim>\<open>RequestException\<close> does not leave the handler: it
  returns a dict that has a message under \<^verbatim>\<open>error\<close> and an integer under
  \<^verbatim>\<open>status_code\<close>, after printing the message. When the call succeeds the handler
  returns what the call returned, which is the decoded JSON body of the server's reply,
  unchanged.
\<close>

theorem C3_failures_become_results:
  assumes "map_of event ''input'' = Some job_input"
      and "handler_payload fmt job_input tr = (Inr payload, tr1)"
  shows "(\<forall>err tr2. run_sd_inference srv payload tr1 = (Inl err, tr2) \<longrightarrow>
            isinstance err RequestException \<longrightarrow>
            (\<exists>d msg code. handler fmt srv event tr = (Inr (PDict d), tr2 @ [Print msg]) \<and>
                           map_of d ''error'' = Some (PStr msg) \<and>
                           map_of d ''status_code'' = Some (PInt code)))
       \<and> (\<forall>v tr2. run_sd_inference srv payload tr1 = (Inr v, tr2) \<longrightarrow>
            handler fmt srv event tr = (Inr v, tr2) \<and>
            (\<exists>rsp. srv (requests_sent tr) (inference_request payload) = Inr rsp \<and>
                   json_body rsp = Inr v))"
proof (intro conjI allI impI)
  fix err tr2
  assume run: "run_sd_inference srv payload tr1 = (Inl err, tr2)"
     and req: "isinstance err RequestException"
  obtain msg code where h: "handle_inference_error err tr2 =
      (PDict [(''error'', PStr msg), (''status_code'', PInt code)], tr2 @ [Print msg])"
    using handle_inference_error_request_dict [OF req, of tr2] by blast
  have "handler fmt srv event tr =
          (Inr (PDict [(''error'', PStr msg), (''status_code'', PInt code)]), tr2 @ [Print msg])"
    using handler_after_payload [OF assms, of srv] run h by simp
  moreover have "map_of [(''error'', PStr msg), (''status_code'', PInt code)] ''error'' = Some (PStr msg)"
    by simp
  moreover have "map_of [(''error'', PStr msg), (''status_code'', PInt code)] ''status_code'' = Some (PInt code)"
    by simp
  ultimately show "\<exists>d msg code. handler fmt srv event tr = (Inr (PDict d), tr2 @ [Print msg]) \<and>
                           map_of d ''error'' = Some (PStr msg) \<and>
                           map_of d ''status_code'' = Some (PInt code)"
    by blast
next
  fix v tr2
  assume run: "run_sd_inference srv payload tr1 = (Inr v, tr2)"
  show "handler fmt srv event tr = (Inr v, tr2)"
    using handler_after_payload [OF assms, of srv] run by simp
  have "requests_sent tr1 = requests_sent tr"
    using handler_payload_no_request [of fmt job_input tr] assms(2) by simp
  then show "\<exists>rsp. srv (requests_sent tr) (inference_request payload) = Inr rsp \<and> json_body rsp = Inr v"
    using run_sd_inference_result [of srv payload tr1] run
    by (auto split: sum.splits)
qed

text \<open>C3 at a refused connection and at a reply with status 200.\<close>

theorem C3_failures_become_results_witness:
  "(\<exists>d msg code. handler demo_fmt server_down demo_event [] =
       (Inr (PDict d),
        demo_prints @ [Print (''Sending request to AUTOMATIC1111 API: '' @ LOCAL_URL @ ''/txt2img''),
                       Request (inference_request demo_payload), Print msg]) \<and>
       map_of d ''error'' = Some (PStr msg) \<and> map_of d ''status_code'' = Some (PInt code))
   \<and> handler demo_fmt server_ok demo_event [] =
       (Inr (PDict [(''images'', PList [])]),
        demo_prints @ [Print (''Sending request to AUTOMATIC1111 API: '' @ LOCAL_URL @ ''/txt2img''),
                       Request (inference_request demo_payload)])"
  using C3_failures_become_results [OF demo_input demo_handler_payload, of server_down]
        C3_failures_become_results [OF demo_input demo_handler_payload, of server_ok]
        demo_run_down demo_run_ok
  by simp

text \<open>
  C6. One run of the handler adds at most one request to the trace, and that request is a
  POST to the \<^verbatim>\<open>txt2img\<close> or the \<^verbatim>\<open>img2img\<close> endpoint. What the handler returns
  does not depend on what happened before: two runs on the same event, after different
  histories and against different servers, return the same as soon as the servers give the same
  answer to the one inference request of that event.
\<close>

theorem C6_one_call_no_state:
  "(\<exists>evs. snd (handler fmt srv event tr) = tr @ evs \<and>
       length (filter is_Request evs) \<le> 1 \<and>
       (\<forall>q. Request q \<in> set evs \<longrightarrow>
          req_method q = POST \<and>
          (req_url q = LOCAL_URL @ ''/txt2img'' \<or> req_url q = LOCAL_URL @ ''/img2img'')))
   \<and> ((\<forall>job p. map_of event ''input'' = Some job \<longrightarrow> fst (handler_payload fmt job []) = Inr p \<longrightarrow>
          srv (requests_sent tr) (inference_request p) = srv' (requests_sent tr') (inference_request p))
        \<longrightarrow> fst (handler fmt srv event tr) = fst (handler fmt srv' event tr'))"
proof (intro conjI impI)
  obtain evs where evs: "snd (handler fmt srv event tr) = tr @ evs"
    and cases: "filter is_Request evs = [] \<or>
      (\<exists>job p. map_of event ''input'' = Some job \<and> fst (handler_payload fmt job []) = Inr p \<and>
               filter is_Request evs = [Request (inference_request p)])"
    using handler_trace [of fmt srv event tr] by blast
  have len: "length (filter is_Request evs) \<le> 1"
    using cases by auto
  have urls: "req_method q = POST \<and>
          (req_url q = LOCAL_URL @ ''/txt2img'' \<or> req_url q = LOCAL_URL @ ''/img2img'')"
    if "Request q \<in> set evs" for q
  proof -
    have mem: "Request q \<in> set (filter is_Request evs)" using that by simp
    consider (none) "filter is_Request evs = []"
      | (one) p where "filter is_Request evs = [Request (inference_request p)]"
      using cases by blast
    then show ?thesis
    proof cases
      case none
      from mem show ?thesis unfolding none by simp
    next
      case (one p)
      from mem have "q = inference_request p" unfolding one by simp
      then show ?thesis by (simp add: inference_request_def api_endpoint_def)
    qed
  qed
  show "\<exists>evs. snd (handler fmt srv event tr) = tr @ evs \<and>
       length (filter is_Request evs) \<le> 1 \<and>
       (\<forall>q. Request q \<in> set evs \<longrightarrow>
          req_method q = POST \<and>
          (req_url q = LOCAL_URL @ ''/txt2img'' \<or> req_url q = LOCAL_URL @ ''/img2img''))"
    using evs len urls by blast
next
  assume same: "\<forall>job p. map_of event ''input'' = Some job \<longrightarrow> fst (handler_payload fmt job []) = Inr p \<longrightarrow>
          srv (requests_sent tr) (inference_request p) = srv' (requests_sent tr') (inference_request p)"
  show "fst (handler fmt srv event tr) = fst (handler fmt srv' event tr')"
    unfolding handler_fst using same
    by (auto split: option.splits sum.splits)
qed

lemma demo_handler_ok:
  "handler demo_fmt server_ok demo_event [] =
     (Inr (PDict [(''images'', PList [])]),
      [] @ demo_prints @
        [Print (''Sending request to AUTOMATIC1111 API: '' @ LOCAL_URL @ ''/txt2img''),
         Request (inference_request demo_payload)])"
  using handler_after_payload [OF demo_input demo_handler_payload, of server_ok] demo_run_ok
  by simp

lemma demo_handler_ok_trace:
  "snd (handler demo_fmt server_ok demo_event []) =
     [] @ demo_prints @
        [Print (''Sending request to AUTOMATIC1111 API: '' @ LOCAL_URL @ ''/txt2img''),
         Request (inference_request demo_payload)]"
  by (simp only: demo_handler_ok snd_conv)

lemma demo_request_sent:
  "Request (inference_request demo_payload) \<in>
     set (demo_prints @
        [Print (''Sending request to AUTOMATIC1111 API: '' @ LOCAL_URL @ ''/txt2img''),
         Request (inference_request demo_payload)])"
  by simp

text \<open>C6 on the example job, run first and run after an earlier request and a sleep.\<close>

theorem C6_one_call_no_state_witness:
  "length (filter is_Request (snd (handler demo_fmt server_ok demo_event []))) \<le> 1 \<and>
   fst (handler demo_fmt server_ok demo_event []) =
     fst (handler demo_fmt server_ok demo_event [Request health_request, Sleep 1])"
  using C6_one_call_no_state [of demo_fmt server_ok demo_event "[]" server_ok
          "[Request health_request, Sleep 1]"]
  by (auto simp: server_ok_def)

text \<open>
  C7. When the inference call fails the handler returns the error result with exactly one
  inference request on the trace: it does not send the request again. The retries that exist
  are the adapter's, configured by \<^verbatim>\<open>retries_config\<close>: at most 15, and forced by status
  only for codes of the 5xx range.
\<close>

theorem C7_no_application_retry:
  assumes "map_of event ''input'' = Some job_input"
      and "handler_payload fmt job_input tr = (Inr payload, tr1)"
      and "run_sd_inference srv payload tr1 = (Inl err, tr2)"
  shows "(\<exists>msg code evs.
            handler fmt srv event tr = (Inr (error_result msg code), tr @ evs) \<and>
            filter is_Request evs = [Request (inference_request payload)])
       \<and> total retries_config = 15
       \<and> list_all (\<lambda>c. 500 \<le> c \<and> c < 600) (status_forcelist retries_config)"
proof (intro conjI)
  have tr1: "tr1 = tr @ snd (handler_payload fmt job_input [])"
    using handler_payload_append [of fmt job_input tr] assms(2) by simp
  have nps: "filter is_Request (snd (handler_payload fmt job_input [])) = []"
    using handler_payload_no_request [of fmt job_input "[]"] by (simp add: requests_sent_def)
  have tr2: "tr2 = tr1 @
               [Print (''Sending request to AUTOMATIC1111 API: '' @ LOCAL_URL @ ''/'' @ api_endpoint payload),
                Request (inference_request payload)]"
    using run_sd_inference_trace [of srv payload tr1] assms(3) by simp
  obtain msg code where res: "fst (handle_inference_error err tr2) = error_result msg code"
    using handle_inference_error_result [of err tr2] by blast
  obtain ev where ev: "snd (handle_inference_error err tr2) = tr2 @ [ev]" "\<not> is_Request ev"
    using handle_inference_error_trace [of err tr2] by blast
  have h: "handler fmt srv event tr = (Inr (error_result msg code), tr2 @ [ev])"
    using handler_after_payload [OF assms(1,2), of srv] assms(3) res ev by simp
  have "tr2 @ [ev] = tr @ (snd (handler_payload fmt job_input []) @
               [Print (''Sending request to AUTOMATIC1111 API: '' @ LOCAL_URL @ ''/'' @ api_endpoint payload),
                Request (inference_request payload), ev])"
    using tr1 tr2 by simp
  moreover have "filter is_Request (snd (handler_payload fmt job_input []) @
               [Print (''Sending request to AUTOMATIC1111 API: '' @ LOCAL_URL @ ''/'' @ api_endpoint payload),
                Request (inference_request payload), ev]) = [Request (inference_request payload)]"
    using nps ev(2) by simp
  ultimately show "\<exists>msg code evs.
            handler fmt srv event tr = (Inr (error_result msg code), tr @ evs) \<and>
            filter is_Request evs = [Request (inference_request payload)]"
    using h by metis
next
  show "total retries_config = 15" by (simp add: retries_config_def)
next
  show "list_all (\<lambda>c. 500 \<le> c \<and> c < 600) (status_forcelist retries_config)"
    by (simp add: retries_config_def)
qed

text \<open>C7 at a refused connection.\<close>

theorem C7_no_application_retry_witness:
  "(\<exists>msg code evs.
       handler demo_fmt server_down demo_event [] = (Inr (error_result msg code), [] @ evs) \<and>
       filter is_Request evs = [Request (inference_request demo_payload)])
   \<and> total retries_config = 15
   \<and> list_all (\<lambda>c. 500 \<le> c \<and> c < 600) (status_forcelist retries_config)"
  by (rule C7_no_application_retry [OF demo_input demo_handler_payload demo_run_down])

lemma handler_payload_keys:
  assumes "fst (handler_payload fmt job tr) = Inr p"
  shows "''loras'' \<notin> dom (map_of p)"
    and "{''steps'', ''sampler_name'', ''cfg_scale'', ''width'', ''height'', ''seed'',
          ''negative_prompt''} \<subseteq> dom (map_of p)"
proof -
  obtain r tr1 where li: "lora_injection fmt job tr = (r, tr1)"
    by (cases "lora_injection fmt job tr")
  obtain d where r: "r = Inr d" and p: "p = apply_defaults d"
    using assms li by (cases r) (simp_all add: handler_payload_def)
  obtain j where "job = PDict j"
    using lora_injection_dict li r by blast
  then have "map_of d ''loras'' = None"
    using lora_injection_lookup(1) li r by blast
  then show "''loras'' \<notin> dom (map_of p)"
    by (simp add: p map_of_apply_defaults defaults_def domIff)
  show "{''steps'', ''sampler_name'', ''cfg_scale'', ''width'', ''height'', ''seed'',
          ''negative_prompt''} \<subseteq> dom (map_of p)"
    by (simp add: p map_of_apply_defaults defaults_def domIff split: option.splits)
qed

lemma handler_request:
  assumes "snd (handler fmt srv event tr) = tr @ evs" and "Request q \<in> set evs"
  shows "\<exists>job p. map_of event ''input'' = Some job \<and> fst (handler_payload fmt job []) = Inr p \<and>
                 q = inference_request p"
proof -
  obtain evs' where evs': "snd (handler fmt srv event tr) = tr @ evs'"
    and cases: "filter is_Request evs' = [] \<or>
      (\<exists>job p. map_of event ''input'' = Some job \<and> fst (handler_payload fmt job []) = Inr p \<and>
               filter is_Request evs' = [Request (inference_request p)])"
    using handler_trace [of fmt srv event tr] by blast
  have "evs' = evs" using evs' assms(1) by simp
  then have mem: "Request q \<in> set (filter is_Request evs')" using assms(2) by simp
  consider (none) "filter is_Request evs' = []"
    | (one) job p where "map_of event ''input'' = Some job" "fst (handler_payload fmt job []) = Inr p"
        "filter is_Request evs' = [Request (inference_request p)]"
    using cases by blast
  then show ?thesis
  proof cases
    case none
    from mem show ?thesis unfolding none by simp
  next
    case (one job p)
    from mem have "q = inference_request p" unfolding one(3) by simp
    then show ?thesis using one by blast
  qed
qed

text \<open>
  C9. Every request the handler sends carries a payload without the key \<^verbatim>\<open>loras\<close>
  and with the seven keys of \<^verbatim>\<open>defaults\<close>.
\<close>

theorem C9_forwarded_keys:
  assumes "snd (handler fmt srv event tr) = tr @ evs" and "Request q \<in> set evs"
  shows "\<exists>p. req_json q = Some (PDict p) \<and> ''loras'' \<notin> dom (map_of p) \<and>
             {''steps'', ''sampler_name'', ''cfg_scale'', ''width'', ''height'', ''seed'',
              ''negative_prompt''} \<subseteq> dom (map_of p)"
proof -
  obtain job p where p: "fst (handler_payload fmt job []) = Inr p" and q: "q = inference_request p"
    using handler_request [OF assms] by blast
  have "req_json q = Some (PDict p)" by (simp add: q inference_request_def)
  then show ?thesis using handler_payload_keys [OF p] by blast
qed

text \<open>C9 on the request of the example job.\<close>

theorem C9_forwarded_keys_witness:
  "\<exists>p. req_json (inference_request demo_payload) = Some (PDict p) \<and> ''loras'' \<notin> dom (map_of p) \<and>
       {''steps'', ''sampler_name'', ''cfg_scale'', ''width'', ''height'', ''seed'',
        ''negative_prompt''} \<subseteq> dom (map_of p)"
  by (rule C9_forwarded_keys [OF demo_handler_ok_trace demo_request_sent])

text \<open>
  C8. In the payload of a request the handler sends, every key of the job input other than
  \<^verbatim>\<open>loras\<close> and \<^verbatim>\<open>prompt\<close> still has the caller's value. The payload is
  \<^verbatim>\<open>apply_defaults\<close> of what the LoRA injection left: filling the defaults keeps every
  value that is there, and it leaves \<^verbatim>\<open>prompt\<close> as the injection left it.
\<close>

theorem C8_caller_fields_kept:
  assumes "map_of event ''input'' = Some (PDict j)"
      and "snd (handler fmt srv event tr) = tr @ evs" and "Request q \<in> set evs"
  shows "\<exists>d p. fst (lora_injection fmt (PDict j) []) = Inr d \<and> p = apply_defaults d \<and>
               req_json q = Some (PDict p) \<and>
               (\<forall>k v. k \<noteq> ''loras'' \<longrightarrow> k \<noteq> ''prompt'' \<longrightarrow> map_of j k = Some v \<longrightarrow> map_of p k = Some v) \<and>
               (\<forall>k v. map_of d k = Some v \<longrightarrow> map_of p k = Some v) \<and>
               map_of p ''prompt'' = map_of d ''prompt''"
proof -
  obtain job p where job: "map_of event ''input'' = Some job"
    and p: "fst (handler_payload fmt job []) = Inr p" and q: "q = inference_request p"
    using handler_request [OF assms(2,3)] by blast
  have job': "job = PDict j" using job assms(1) by simp
  obtain r tr1 where li: "lora_injection fmt (PDict j) [] = (r, tr1)"
    by (cases "lora_injection fmt (PDict j) []")
  obtain d where r: "r = Inr d" and pd: "p = apply_defaults d"
    using p li job' by (cases r) (simp_all add: handler_payload_def)
  have li': "lora_injection fmt (PDict j) [] = (Inr d, tr1)" using li r by simp
  have keep: "map_of p k = Some v" if "k \<noteq> ''loras''" "k \<noteq> ''prompt''" "map_of j k = Some v" for k v
    using lora_injection_lookup(2) [OF li' that(1,2)] that(3) by (simp add: pd map_of_apply_defaults)
  have "fst (lora_injection fmt (PDict j) []) = Inr d" using li' by simp
  moreover have "req_json q = Some (PDict p)" by (simp add: q inference_request_def)
  moreover have "\<forall>k v. map_of d k = Some v \<longrightarrow> map_of p k = Some v"
    by (simp add: pd map_of_apply_defaults)
  moreover have "map_of p ''prompt'' = map_of d ''prompt''"
    by (simp add: pd map_of_apply_defaults defaults_def split: option.splits)
  ultimately show ?thesis using pd keep by blast
qed

text \<open>C8 on the request of the example job.\<close>

theorem C8_caller_fields_kept_witness:
  "\<exists>d p. fst (lora_injection demo_fmt (PDict demo_job) []) = Inr d \<and> p = apply_defaults d \<and>
         req_json (inference_request demo_payload) = Some (PDict p) \<and>
         (\<forall>k v. k \<noteq> ''loras'' \<longrightarrow> k \<noteq> ''prompt'' \<longrightarrow> map_of demo_job k = Some v \<longrightarrow> map_of p k = Some v) \<and>
         (\<forall>k v. map_of d k = Some v \<longrightarrow> map_of p k = Some v) \<and>
         map_of p ''prompt'' = map_of d ''prompt''"
  by (rule C8_caller_fields_kept [OF demo_input demo_handler_ok_trace demo_request_sent])

subsection \<open>The payload transformation\<close>

lemma dict_pop_eq: "dict_pop d k dflt = (dict_get d k dflt, AList.delete k d)"
proof (cases "map_of d k")
  case None
  then have "k \<notin> fst ` set d" by (simp add: map_of_eq_None_iff)
  then show ?thesis using None by (simp add: dict_pop_def dict_get_def)
next
  case (Some v)
  then show ?thesis by (simp add: dict_pop_def dict_get_def)
qed

lemma lora_loop_dicts:
  "fst (lora_loop fmt (map PDict ds) seg tr) =
     Inr (seg @ concat (map (spec_lora_tag fmt) (filter spec_lora_valid ds)))"
  by (induction ds arbitrary: seg tr) (simp_all add: Let_def spec_lora_valid_def spec_lora_tag_def)

lemma spec_tags_empty:
  "concat (map (spec_lora_tag fmt) (filter spec_lora_valid ds)) = [] \<longleftrightarrow> filter spec_lora_valid ds = []"
  by (cases "filter spec_lora_valid ds") (simp_all add: spec_lora_tag_def)

lemma fold_setdefault_append:
  "distinct (map fst ds) \<Longrightarrow>
   fold (\<lambda>kv acc. setdefault acc (fst kv) (snd kv)) ds p =
     p @ filter (\<lambda>kv. map_of p (fst kv) = None) ds"
proof (induction ds arbitrary: p)
  case Nil
  show ?case by simp
next
  case (Cons kv ds)
  have same: "filter (\<lambda>x. map_of (setdefault p (fst kv) (snd kv)) (fst x) = None) ds =
              filter (\<lambda>x. map_of p (fst x) = None) ds"
  proof (rule filter_cong [OF refl])
    fix x assume "x \<in> set ds"
    then have "fst x \<in> set (map fst ds)" by simp
    moreover have "fst kv \<notin> set (map fst ds)" using Cons.prems by simp
    ultimately have "fst x \<noteq> fst kv" by metis
    then show "(map_of (setdefault p (fst kv) (snd kv)) (fst x) = None) = (map_of p (fst x) = None)"
      by (simp add: setdefault_def)
  qed
  have "distinct (map fst ds)" using Cons.prems by simp
  from Cons.IH [OF this, of "setdefault p (fst kv) (snd kv)"] same
  show ?case by (simp add: setdefault_def)
qed

lemma apply_defaults_spec: "apply_defaults p = spec_fill_defaults p"
  unfolding apply_defaults_def spec_fill_defaults_def
  by (rule fold_setdefault_append) (simp add: defaults_def)

lemma dict_get_delete: "k' \<noteq> k \<Longrightarrow> dict_get (AList.delete k d) k' dflt = dict_get d k' dflt"
  by (simp add: dict_get_def)

lemma lora_injection_spec:
  assumes "(\<not> truthy (dict_get j ''loras'' (PList [])) \<and> ds = []) \<or>
           dict_get j ''loras'' (PList []) = PList (map PDict ds)"
      and "filter spec_lora_valid ds = [] \<or> dict_get j ''prompt'' (PStr []) = PStr prompt"
  shows "fst (lora_injection fmt (PDict j) tr) = Inr (spec_inject_loras fmt ds prompt j)"
proof (cases "truthy (dict_get j ''loras'' (PList []))")
  case False
  then have "ds = []" using assms(1) by (cases ds) auto
  then show ?thesis
    using False by (simp add: lora_injection_def dict_pop_eq spec_inject_loras_def)
next
  case True
  then have loras: "dict_get j ''loras'' (PList []) = PList (map PDict ds)"
    using assms(1) by blast
  obtain r tr1 where loop: "lora_loop fmt (map PDict ds) [] tr = (r, tr1)"
    by (cases "lora_loop fmt (map PDict ds) [] tr")
  have r: "r = Inr (concat (map (spec_lora_tag fmt) (filter spec_lora_valid ds)))"
    using lora_loop_dicts [of fmt ds "[]" tr] loop by simp
  show ?thesis
  proof (cases "filter spec_lora_valid ds = []")
    case True
    then show ?thesis
      using \<open>truthy _\<close> loras loop r
      by (simp add: lora_injection_def dict_pop_eq spec_inject_loras_def)
  next
    case False
    then have prompt: "dict_get j ''prompt'' (PStr []) = PStr prompt"
      using assms(2) by blast
    have tags: "concat (map (spec_lora_tag fmt) (filter spec_lora_valid ds)) \<noteq> []"
      using False spec_tags_empty [of fmt ds] by blast
    show ?thesis
      using \<open>truthy _\<close> loras loop r tags prompt
      by (auto simp add: lora_injection_def dict_pop_eq spec_inject_loras_def dict_get_delete Let_def)
  qed
qed

text \<open>
  C1. For a job input whose \<^verbatim>\<open>loras\<close> value is absent, false or a list of dicts, and
  whose \<^verbatim>\<open>prompt\<close> is absent or a string whenever a tag is to be appended (every other
  input raises before a payload exists), the handler builds the payload in two steps, in this
  order. First the LoRA injection: the key \<^verbatim>\<open>loras\<close> is removed and, for each descriptor
  with a true \<^verbatim>\<open>name\<close> and an \<^verbatim>\<open>int\<close> or \<^verbatim>\<open>float\<close> weight, the tag
  \<^verbatim>\<open> <lora:name:weight>\<close> is appended to the prompt, the empty string standing for
  a missing prompt. Then the defaults are filled into the result of the first step.
\<close>

theorem C1_inject_then_defaults:
  assumes "(\<not> truthy (dict_get j ''loras'' (PList [])) \<and> ds = []) \<or>
           dict_get j ''loras'' (PList []) = PList (map PDict ds)"
      and "filter spec_lora_valid ds = [] \<or> dict_get j ''prompt'' (PStr []) = PStr prompt"
  shows "fst (lora_injection fmt (PDict j) tr) = Inr (spec_inject_loras fmt ds prompt j) \<and>
         fst (handler_payload fmt (PDict j) tr) =
           Inr (spec_fill_defaults (spec_inject_loras fmt ds prompt j))"
proof -
  have li: "fst (lora_injection fmt (PDict j) tr) = Inr (spec_inject_loras fmt ds prompt j)"
    by (rule lora_injection_spec [OF assms])
  then have "fst (handler_payload fmt (PDict j) tr) =
               Inr (apply_defaults (spec_inject_loras fmt ds prompt j))"
    by (cases "lora_injection fmt (PDict j) tr") (simp add: handler_payload_def)
  then show ?thesis using li by (simp add: apply_defaults_spec)
qed

lemma demo_loras:
  "dict_get demo_job ''loras'' (PList []) =
     PList (map PDict [[(''name'', PStr ''foo''), (''weight'', PFloat 0x3FE6666666666666)],
                       [(''name'', PStr []), (''weight'', PInt 1)]])"
  by (simp add: demo_job_def dict_get_def)

lemma demo_prompt: "dict_get demo_job ''prompt'' (PStr []) = PStr ''a cat''"
  by (simp add: demo_job_def dict_get_def)

lemma demo_spec_payload:
  "spec_fill_defaults
     (spec_inject_loras demo_fmt
        [[(''name'', PStr ''foo''), (''weight'', PFloat 0x3FE6666666666666)],
         [(''name'', PStr []), (''weight'', PInt 1)]] ''a cat'' demo_job) = demo_payload"
  by (simp add: spec_fill_defaults_def spec_inject_loras_def spec_lora_valid_def spec_lora_tag_def
        dict_get_def demo_job_def demo_fmt_def demo_payload_def defaults_def AList.delete_eq Let_def)

text \<open>C1 on the example job: one valid descriptor, one with an empty name.\<close>

theorem C1_inject_then_defaults_witness:
  "fst (handler_payload demo_fmt (PDict demo_job) []) = Inr demo_payload"
  using C1_inject_then_defaults [OF disjI2 [OF demo_loras] disjI2 [OF demo_prompt], of demo_fmt "[]"]
  by (simp add: demo_spec_payload)

text \<open>
  The two hypotheses of C1 leave no returning run out: whenever the injection returns a
  payload for a dict, the \<^verbatim>\<open>loras\<close> value was false or a list of dicts, and the prompt
  was a string (or absent) if a tag was appended.
\<close>

lemma lora_loop_returns_dicts:
  "fst (lora_loop fmt es seg tr) = Inr x \<Longrightarrow> \<exists>ds. es = map PDict ds"
proof (induction es arbitrary: seg tr)
  case Nil
  show ?case by simp
next
  case (Cons e es)
  then obtain d where d: "e = PDict d"
    by (cases e) simp_all
  from Cons.prems d have "\<exists>seg' tr'. fst (lora_loop fmt es seg' tr') = Inr x"
    by (auto simp: Let_def split: if_splits)
  then obtain ds where "es = map PDict ds"
    using Cons.IH by blast
  then have "e # es = map PDict (d # ds)" using d by simp
  then show ?case by (rule exI)
qed

lemma py_add_str_returns: "py_add_str v t = Inr s \<Longrightarrow> \<exists>p. v = PStr p"
  by (cases v) simp_all

lemma py_iter_dicts:
  assumes "truthy v" and "py_iter v = Inr (map PDict ds)"
  shows "v = PList (map PDict ds)"
proof (cases v)
  case (PStr s)
  then obtain c cs where "s = c # cs" using assms(1) by (cases s) simp_all
  then show ?thesis using assms(2) PStr by (cases ds) simp_all
next
  case (PDict d)
  then obtain kv kvs where "d = kv # kvs" using assms(1) by (cases d) simp_all
  then show ?thesis using assms(2) PDict by (cases ds) simp_all
qed (use assms in simp_all)

lemma lora_injection_returns:
  assumes "fst (lora_injection fmt (PDict j) tr) = Inr d"
  shows "\<exists>ds prompt.
           ((\<not> truthy (dict_get j ''loras'' (PList [])) \<and> ds = []) \<or>
            dict_get j ''loras'' (PList []) = PList (map PDict ds)) \<and>
           (filter spec_lora_valid ds = [] \<or> dict_get j ''prompt'' (PStr []) = PStr prompt)"
proof (cases "truthy (dict_get j ''loras'' (PList []))")
  case False
  then show ?thesis by (intro exI [of _ "[]"]) simp
next
  case True
  obtain entries where it: "py_iter (dict_get j ''loras'' (PList [])) = Inr entries"
    using assms True
    by (cases "py_iter (dict_get j ''loras'' (PList []))")
       (simp_all add: lora_injection_def dict_pop_eq)
  obtain r tr1 where loop: "lora_loop fmt entries [] tr = (r, tr1)"
    by (cases "lora_loop fmt entries [] tr")
  obtain seg where r: "r = Inr seg"
    using assms True it loop by (cases r) (simp_all add: lora_injection_def dict_pop_eq)
  obtain ds where ds: "entries = map PDict ds"
    using lora_loop_returns_dicts [of fmt entries "[]" tr seg] loop r by auto
  have loras: "dict_get j ''loras'' (PList []) = PList (map PDict ds)"
    using py_iter_dicts [OF True] it ds by simp
  have seg: "seg = concat (map (spec_lora_tag fmt) (filter spec_lora_valid ds))"
    using lora_loop_dicts [of fmt ds "[]" tr] loop r ds by simp
  show ?thesis
  proof (cases "filter spec_lora_valid ds = []")
    case True
    then show ?thesis using loras by blast
  next
    case False
    then have "seg \<noteq> []" using seg spec_tags_empty [of fmt ds] by simp
    then obtain s where "py_add_str (dict_get j ''prompt'' (PStr [])) seg = Inr s"
      using assms \<open>truthy _\<close> it loop r
      by (cases "py_add_str (dict_get j ''prompt'' (PStr [])) seg")
         (simp_all add: lora_injection_def dict_pop_eq dict_get_delete)
    then obtain p where "dict_get j ''prompt'' (PStr []) = PStr p"
      using py_add_str_returns by blast
    then show ?thesis using loras by blast
  qed
qed

subsection \<open>The readiness wait\<close>

lemma health_check_eq:
  "health_check srv tr = (health_outcome srv (requests_sent tr), tr @ [Request health_request])"
  by (simp add: health_check_def health_outcome_def session_send_def split: sum.splits)

lemma spec_wait_trace_0:
  "spec_wait_trace srv name n0 r 0 = [Request health_request, Print (name @ '' is ready.'')]"
  by (simp add: spec_wait_trace_def)

lemma spec_wait_trace_Suc:
  "spec_wait_trace srv name n0 r (Suc n) =
     spec_failed_round srv name n0 (Suc r) @ spec_wait_trace srv name (Suc n0) (Suc r) n"
proof -
  have "[0..<Suc n] = 0 # map Suc [0..<n]"
    by (simp add: upt_conv_Cons map_Suc_upt del: upt_Suc)
  then show ?thesis
    by (simp add: spec_wait_trace_def comp_def del: upt_Suc)
qed

lemma wait_loop_ok:
  assumes "health_outcome srv (requests_sent tr) = Inr u"
  shows "wait_loop srv name r tr = Some (tr @ [Request health_request, Print (name @ '' is ready.'')])"
  by (subst wait_loop.simps) (simp add: health_check_eq assms)

lemma wait_loop_fail:
  assumes "health_outcome srv (requests_sent tr) = Inl e"
  shows "wait_loop srv name r tr =
           wait_loop srv name (Suc r) (tr @ spec_failed_round srv name (requests_sent tr) (Suc r))"
  by (subst wait_loop.simps)
     (simp add: health_check_eq assms spec_failed_round_def log_interval_def check_interval_seconds_def)

lemma failed_round_eq:
  assumes "health_outcome srv (requests_sent tr) = Inl e"
  shows "(if r + 1 = 1 \<or> (r + 1) mod log_interval = 0
          then (tr @ [Request health_request]) @ [Print (not_ready_message name (r + 1) e)]
          else tr @ [Request health_request]) @ [Sleep check_interval_seconds] =
         tr @ spec_failed_round srv name (requests_sent tr) (Suc r)"
  by (simp add: spec_failed_round_def assms log_interval_def check_interval_seconds_def)

lemma requests_sent_failed_round:
  assumes "health_outcome srv (requests_sent tr) = Inl e"
  shows "requests_sent (tr @ spec_failed_round srv name (requests_sent tr) a) = Suc (requests_sent tr)"
  by (simp add: spec_failed_round_def assms)

lemma wait_loop_returns:
  assumes "health_outcome srv (requests_sent tr + n) = Inr ()"
      and "\<forall>k<n. isl (health_outcome srv (requests_sent tr + k))"
  shows "wait_loop srv name r tr = Some (tr @ spec_wait_trace srv name (requests_sent tr) r n)"
  using assms
proof (induction n arbitrary: r tr)
  case 0
  then show ?case by (simp add: wait_loop_ok spec_wait_trace_0)
next
  case (Suc n)
  from Suc.prems(2) have "isl (health_outcome srv (requests_sent tr + 0))" by blast
  then obtain e where e: "health_outcome srv (requests_sent tr) = Inl e"
    by (cases "health_outcome srv (requests_sent tr)") simp_all
  let ?tr = "tr @ spec_failed_round srv name (requests_sent tr) (Suc r)"
  have sent: "requests_sent ?tr = Suc (requests_sent tr)"
    by (rule requests_sent_failed_round [OF e])
  have ok: "health_outcome srv (requests_sent ?tr + n) = Inr ()"
    using Suc.prems(1) sent by simp
  have fails: "\<forall>k<n. isl (health_outcome srv (requests_sent ?tr + k))"
  proof (intro allI impI)
    fix k assume "k < n"
    then have "Suc k < Suc n" by simp
    then have "isl (health_outcome srv (requests_sent tr + Suc k))" using Suc.prems(2) by blast
    then show "isl (health_outcome srv (requests_sent ?tr + k))" using sent by simp
  qed
  have "wait_loop srv name r tr = wait_loop srv name (Suc r) ?tr"
    by (rule wait_loop_fail [OF e])
  also have "\<dots> = Some (?tr @ spec_wait_trace srv name (requests_sent ?tr) (Suc r) n)"
    by (rule Suc.IH [OF ok fails])
  also have "\<dots> = Some (tr @ spec_wait_trace srv name (requests_sent tr) r (Suc n))"
    unfolding sent by (simp add: spec_wait_trace_Suc)
  finally show ?case .
qed

lemma wait_loop_returned:
  assumes "wait_loop srv name r tr = Some tr'"
  shows "\<exists>n. health_outcome srv (requests_sent tr + n) = Inr () \<and>
             (\<forall>k<n. isl (health_outcome srv (requests_sent tr + k))) \<and>
             tr' = tr @ spec_wait_trace srv name (requests_sent tr) r n"
  using assms
proof (induction srv name r tr tr' rule: wait_loop.raw_induct [rotated 1, consumes 1, case_names step])
  case (step wl srv name r tr y)
  show ?case
  proof (cases "health_outcome srv (requests_sent tr)")
    case (Inr u)
    then have "y = tr @ spec_wait_trace srv name (requests_sent tr) r 0"
      using step(2) by (simp add: health_check_eq spec_wait_trace_0)
    moreover have "health_outcome srv (requests_sent tr + 0) = Inr ()" using Inr by simp
    ultimately show ?thesis by (intro exI [of _ 0]) simp
  next
    case (Inl e)
    let ?tr = "tr @ spec_failed_round srv name (requests_sent tr) (Suc r)"
    have sent: "requests_sent ?tr = Suc (requests_sent tr)"
      by (rule requests_sent_failed_round [OF Inl])
    have "wl srv name (r + 1) ?tr = Some y"
      using step(2) by (simp only: health_check_eq Inl prod.case sum.case failed_round_eq [OF Inl])
    then have "wl srv name (Suc r) ?tr = Some y" by simp
    from step(1) [OF this] obtain n where
      ok: "health_outcome srv (requests_sent ?tr + n) = Inr ()" and
      fails: "\<forall>k<n. isl (health_outcome srv (requests_sent ?tr + k))" and
      y: "y = ?tr @ spec_wait_trace srv name (requests_sent ?tr) (Suc r) n"
      by blast
    have "health_outcome srv (requests_sent tr + Suc n) = Inr ()" using ok sent by simp
    moreover have "\<forall>k<Suc n. isl (health_outcome srv (requests_sent tr + k))"
    proof (intro allI impI)
      fix k assume k: "k < Suc n"
      show "isl (health_outcome srv (requests_sent tr + k))"
      proof (cases k)
        case 0
        then show ?thesis using Inl by simp
      next
        case (Suc k')
        then have "k' < n" using k by simp
        then show ?thesis using fails sent Suc by simp
      qed
    qed
    moreover have "y = tr @ spec_wait_trace srv name (requests_sent tr) r (Suc n)"
      using y unfolding sent by (simp add: spec_wait_trace_Suc)
    ultimately show ?thesis by blast
  qed
qed

text \<open>
  C4. \<^verbatim>\<open>wait_for_service\<close> returns exactly when some health check succeeds, and then
  right after the first one that does: it never returns without a success response, and it
  runs forever when none comes. Up to that check every round is the request, the log line when
  the attempt is the first or a multiple of 15, and a sleep of half a second, followed by the
  next request.
\<close>

theorem C4_wait_until_healthy:
  "wait_for_service srv url service_name tr = Some tr' \<longleftrightarrow>
     (\<exists>n. health_outcome srv (requests_sent tr + n) = Inr () \<and>
          (\<forall>k<n. isl (health_outcome srv (requests_sent tr + k))) \<and>
          tr' = tr @ [Print (''Waiting for '' @ service_name @ '' at '' @ url @ '' to be ready...'')] @
                spec_wait_trace srv service_name (requests_sent tr) 0 n)"
proof
  assume "wait_for_service srv url service_name tr = Some tr'"
  then show "\<exists>n. health_outcome srv (requests_sent tr + n) = Inr () \<and>
          (\<forall>k<n. isl (health_outcome srv (requests_sent tr + k))) \<and>
          tr' = tr @ [Print (''Waiting for '' @ service_name @ '' at '' @ url @ '' to be ready...'')] @
                spec_wait_trace srv service_name (requests_sent tr) 0 n"
    using wait_loop_returned
      [of srv service_name 0
          "tr @ [Print (''Waiting for '' @ service_name @ '' at '' @ url @ '' to be ready...'')]" tr']
    by (simp add: wait_for_service_def)
next
  assume "\<exists>n. health_outcome srv (requests_sent tr + n) = Inr () \<and>
          (\<forall>k<n. isl (health_outcome srv (requests_sent tr + k))) \<and>
          tr' = tr @ [Print (''Waiting for '' @ service_name @ '' at '' @ url @ '' to be ready...'')] @
                spec_wait_trace srv service_name (requests_sent tr) 0 n"
  then obtain n where ok: "health_outcome srv (requests_sent tr + n) = Inr ()"
    and fails: "\<forall>k<n. isl (health_outcome srv (requests_sent tr + k))"
    and tr': "tr' = tr @ [Print (''Waiting for '' @ service_name @ '' at '' @ url @ '' to be ready...'')] @
                spec_wait_trace srv service_name (requests_sent tr) 0 n"
    by blast
  show "wait_for_service srv url service_name tr = Some tr'"
    using wait_loop_returns
      [of srv "tr @ [Print (''Waiting for '' @ service_name @ '' at '' @ url @ '' to be ready...'')]"
          n service_name 0] ok fails tr'
    by (simp add: wait_for_service_def)
qed

lemma warming_outcomes:
  "isl (health_outcome server_warming 0)"
  "isl (health_outcome server_warming (Suc 0))"
  "health_outcome server_warming 2 = Inr ()"
  by (simp_all add: health_outcome_def server_warming_def server_down_def server_ok_def
        raise_for_status_def)

lemma warming_trace:
  "spec_wait_trace server_warming ''API'' 0 0 2 =
     [Request health_request,
      Print ''API not ready yet (attempt 1). Retrying... Error: ConnectionError'',
      Sleep (1 / 2),
      Request health_request,
      Sleep (1 / 2),
      Request health_request,
      Print ''API is ready.'']"
  by (simp add: spec_wait_trace_def spec_failed_round_def health_outcome_def server_warming_def
        server_down_def numeral_2_eq_2 not_ready_message_def str_nat.simps digit_char_def)

text \<open>C4 against a server that refuses two connections and then answers 200.\<close>

theorem C4_wait_until_healthy_witness:
  "wait_for_service server_warming LOCAL_URL ''API'' [] =
     Some ([Print (''Waiting for API at '' @ LOCAL_URL @ '' to be ready...''),
            Request health_request,
            Print ''API not ready yet (attempt 1). Retrying... Error: ConnectionError'',
            Sleep (1 / 2),
            Request health_request,
            Sleep (1 / 2),
            Request health_request,
            Print ''API is ready.''])"
proof (rule iffD2 [OF C4_wait_until_healthy], intro exI [of _ 2] conjI)
  show "health_outcome server_warming (requests_sent [] + 2) = Inr ()"
    by (simp add: health_outcome_def server_warming_def server_ok_def raise_for_status_def)
  show "\<forall>k<2. isl (health_outcome server_warming (requests_sent [] + k))"
    using warming_outcomes(1,2) by (simp add: numeral_2_eq_2 less_Suc_eq)
  show "[Print (''Waiting for API at '' @ LOCAL_URL @ '' to be ready...''),
            Request health_request,
            Print ''API not ready yet (attempt 1). Retrying... Error: ConnectionError'',
            Sleep (1 / 2),
            Request health_request,
            Sleep (1 / 2),
            Request health_request,
            Print ''API is ready.''] =
        [] @ [Print (''Waiting for '' @ ''API'' @ '' at '' @ LOCAL_URL @ '' to be ready...'')] @
        spec_wait_trace server_warming ''API'' (requests_sent []) 0 2"
    by (simp add: warming_trace)
qed

subsection \<open>The checkpoint switch\<close>





lemma checkpoint_success_not_other [simp]:
  "checkpoint_success fmt v \<noteq> Sleep t"
  "checkpoint_success fmt v \<noteq> Request q"
  "\<not> is_Request (checkpoint_success fmt v)"
  by (simp_all add: checkpoint_success_def)






text \<open>An exception leaves the function only when the \<^verbatim>\<open>try\<close> block raised an
  \<^verbatim>\<open>HTTPError\<close> without a response.\<close>

lemma set_sd_model_checkpoint_result:
  "fst (set_sd_model_checkpoint fmt srv m tr) =
     (case fst (set_checkpoint_body fmt srv m
                  (tr @ [Print (''Attempting to set SD model checkpoint to: '' @ m)])) of
        Inr u \<Rightarrow> Inr ()
      | Inl e \<Rightarrow>
          if exc_class e = HTTPError \<and> response e = None
          then Inl (attribute_error PNone ''status_code'') else Inr ())"
proof (cases "set_checkpoint_body fmt srv m
                  (tr @ [Print (''Attempting to set SD model checkpoint to: '' @ m)])")
  case (Pair r tr1)
  show ?thesis
  proof (cases r)
    case (Inr u)
    then show ?thesis using Pair by (simp add: set_sd_model_checkpoint_def)
  next
    case (Inl e)
    then show ?thesis
      using Pair
      by (cases "exc_class e"; cases "response e"; simp add: set_sd_model_checkpoint_def)
  qed
qed

lemma set_checkpoint_body_first_request:
  "\<exists>evs. snd (set_checkpoint_body fmt srv m tr) = tr @ Request (options_post m) # evs"
  by (simp add: set_checkpoint_body_def session_send_def verify_checkpoint_def Let_def
           split: prod.splits sum.splits pyval.splits)

text \<open>
  Outside the hypothesis: an \<^verbatim>\<open>HTTPError\<close> fabricated without a response makes the first
  \<^verbatim>\<open>except\<close> clause read \<^verbatim>\<open>http_err.response.status_code\<close> on
  \<^verbatim>\<open>None\<close>, and the \<^verbatim>\<open>AttributeError\<close> leaves the function. The handler tests for
  \<^verbatim>\<open>None\<close> at line 161 and returns a result with status 500.
\<close>

lemma set_sd_model_checkpoint_bare_http_error:
  "set_sd_model_checkpoint demo_fmt server_bare_http_error ''Gemini_ILMixV5.safetensors'' [] =
     (Inl (attribute_error PNone ''status_code''),
      [Print ''Attempting to set SD model checkpoint to: Gemini_ILMixV5.safetensors'',
       Request (options_post ''Gemini_ILMixV5.safetensors'')])"
  by (simp add: set_sd_model_checkpoint_def set_checkpoint_body_def session_send_def
        server_bare_http_error_def)

lemma handler_bare_http_error:
  "\<exists>msg. fst (handler demo_fmt server_bare_http_error demo_event []) = Inr (error_result msg 500)"
proof -
  have "run_sd_inference server_bare_http_error demo_payload demo_prints =
     (Inl \<lparr>exc_class = HTTPError, type_name = ''HTTPError'', exc_str = ''502 Server Error'',
           response = None\<rparr>,
      demo_prints @ [Print (''Sending request to AUTOMATIC1111 API: '' @ LOCAL_URL @ ''/txt2img''),
                     Request (inference_request demo_payload)])"
    by (simp add: run_sd_inference_def session_send_def server_bare_http_error_def Let_def
          api_endpoint_def demo_payload_def)
  from handler_after_payload [OF demo_input demo_handler_payload, of server_bare_http_error] this
  show ?thesis
    using handle_inference_error_result
      [of "\<lparr>exc_class = HTTPError, type_name = ''HTTPError'', exc_str = ''502 Server Error'',
             response = None\<rparr>"]
    by simp
qed

text \<open>A run in which the API reports the requested file name with a hash after it.\<close>

lemma demo_checkpoint_same:
  "set_sd_model_checkpoint demo_fmt server_same_model ''model.safetensors'' [] =
     (Inr (),
      [Print ''Attempting to set SD model checkpoint to: model.safetensors'',
       Request (options_post ''model.safetensors''),
       Sleep 1,
       Request options_get,
       Print ''Successfully set SD model checkpoint. Current API reports: model.safetensors [abc]''])"
  by (simp add: set_sd_model_checkpoint_def set_checkpoint_body_def session_send_def
        server_same_model_def raise_for_status_def verify_checkpoint_def dict_get_def
        checkpoint_success_def Let_def)

end
